theory Spec2Isabelle
  imports Main
begin

section \<open>The browser driver as an interface\<close>

text \<open>
  The helpers of this repository drive a browser through Playwright. Everything they do
  is a command sent to the page (click, fill, an assertion that polls the page, a probe
  that reads it); everything they learn is the answer to such a command. A command names
  its target by a locator.
\<close>

datatype pattern =
    Str string   \<comment> \<open>a string argument\<close>
  | Rx string    \<comment> \<open>\<^verbatim>\<open>new RegExp(src)\<close>, by its source\<close>
  | RxI string   \<comment> \<open>a regular expression with the flag \<^verbatim>\<open>i\<close>\<close>

datatype locator =
    Css string               \<comment> \<open>\<^verbatim>\<open>page.locator(selector)\<close>\<close>
  | Role string string       \<comment> \<open>\<^verbatim>\<open>page.getByRole(role, { name })\<close>\<close>
  | TestId string            \<comment> \<open>\<^verbatim>\<open>page.getByTestId(id)\<close>\<close>
  | Text pattern bool        \<comment> \<open>\<^verbatim>\<open>page.getByText(text, { exact })\<close>\<close>
  | Sub locator locator      \<comment> \<open>the second locator, searched inside the first\<close>
  | First locator            \<comment> \<open>\<^verbatim>\<open>.first()\<close>\<close>
  | Nth locator nat          \<comment> \<open>\<^verbatim>\<open>.nth(i)\<close>\<close>
  | HasText locator pattern  \<comment> \<open>\<^verbatim>\<open>.filter({ hasText })\<close>\<close>

text \<open>
  The commands. A timeout is in milliseconds; \<open>None\<close> stands for a call that passes no
  timeout. \<open>Click l force\<close> records the option \<^verbatim>\<open>{ force: true }\<close>.
\<close>

datatype action =
    Goto string
  | Click locator bool
  | Clear locator
  | Fill locator string
  | Press locator string
  | PressSequentially locator string nat
  | KeyboardType string
  | KeyboardPress string
  | WaitForTimeout nat
  | WaitForVisible locator nat
  | WaitForLoadState string nat
  | WaitForURLWithout string nat
  | ExpectVisible locator "nat option"
  | ExpectText locator pattern "nat option"
  | ExpectAttribute locator string pattern nat
  | ExpectChecked locator
  | ExpectURL pattern
  | TextContent locator nat
  | IsVisible locator nat
  | AllTextContents locator
  | Log string

text \<open>
  The page is outside the program. It is modelled as an arbitrary function of the history
  of commands issued so far and of the command issued now: \<open>perform\<close> answers a command
  that returns nothing (\<open>None\<close>: it completed; \<open>Some msg\<close>: it threw an error with that
  message, a timeout for instance), and the three readers answer the probes that return a
  value (\<open>Inl msg\<close>: the probe threw).

  The JavaScript engine that runs the helpers is outside the program as well. Of the
  engine, the helpers use the constructor \<^verbatim>\<open>RegExp\<close> on a source built from a name they
  are given: \<open>syntaxError src\<close> is \<open>None\<close> when \<open>src\<close> is the source of a regular
  expression, and \<open>Some msg\<close> when \<^verbatim>\<open>new RegExp(src)\<close> throws a \<^verbatim>\<open>SyntaxError\<close> with that
  message.
\<close>

record browser =
  perform :: "action list \<Rightarrow> action \<Rightarrow> string option"
  readText :: "action list \<Rightarrow> locator \<Rightarrow> nat \<Rightarrow> string + string option"
  readVisible :: "action list \<Rightarrow> locator \<Rightarrow> nat \<Rightarrow> string + bool"
  readTexts :: "action list \<Rightarrow> locator \<Rightarrow> string + string list"
  syntaxError :: "string \<Rightarrow> string option"

text \<open>
  An asynchronous function of the source is a function of the page and of the history; it
  returns the extended history and either the value it returns (\<open>Inr\<close>) or the message of
  the error it throws (\<open>Inl\<close>).
\<close>

type_synonym 'a prog = "browser \<Rightarrow> action list \<Rightarrow> action list \<times> (string + 'a)"

definition succeed :: "'a \<Rightarrow> 'a prog" where
  "succeed v b h = (h, Inr v)"

definition throw :: "string \<Rightarrow> 'a prog" where
  "throw msg b h = (h, Inl msg)"

definition act :: "action \<Rightarrow> unit prog" where
  "act a b h = (h @ [a], case perform b h a of None \<Rightarrow> Inr () | Some msg \<Rightarrow> Inl msg)"

text \<open>
  \<^verbatim>\<open>new RegExp(source)\<close>: the regular expression, or the error of the constructor. It
  sends no command to the page.
\<close>

definition newRegExp :: "string \<Rightarrow> pattern prog" where
  "newRegExp source b h =
     (h, case syntaxError b source of None \<Rightarrow> Inr (Rx source) | Some msg \<Rightarrow> Inl msg)"

text \<open>
  \<^verbatim>\<open>page.waitForTimeout\<close> and \<^verbatim>\<open>console.log\<close> are a timer and an output: they are
  recorded in the history and have no condition that can fail.
\<close>

definition emit :: "action \<Rightarrow> unit prog" where
  "emit a b h = (h @ [a], Inr ())"

definition waitForTimeout :: "nat \<Rightarrow> unit prog" where
  "waitForTimeout ms = emit (WaitForTimeout ms)"

definition consoleLog :: "string \<Rightarrow> unit prog" where
  "consoleLog s = emit (Log s)"

definition thenDo :: "'a prog \<Rightarrow> ('a \<Rightarrow> 'b prog) \<Rightarrow> 'b prog" where
  "thenDo m k b h = (case m b h of (h1, Inl e) \<Rightarrow> (h1, Inl e) | (h1, Inr v) \<Rightarrow> k v b h1)"

definition andThen :: "unit prog \<Rightarrow> 'a prog \<Rightarrow> 'a prog" where
  "andThen m n = thenDo m (\<lambda>_. n)"

fun steps :: "unit prog list \<Rightarrow> unit prog" where
  "steps [] = succeed ()"
| "steps (m # ms) = andThen m (steps ms)"

text \<open>\<open>attempt m\<close> is \<open>m\<close> inside a \<^verbatim>\<open>try\<close>: what it throws becomes a value.\<close>

definition attempt :: "'a prog \<Rightarrow> (string + 'a) prog" where
  "attempt m b h = (case m b h of (h1, r) \<Rightarrow> (h1, Inr r))"

definition textContent :: "locator \<Rightarrow> nat \<Rightarrow> string option prog" where
  "textContent l t b h = (h @ [TextContent l t], readText b h l t)"

definition isVisible :: "locator \<Rightarrow> nat \<Rightarrow> bool prog" where
  "isVisible l t b h = (h @ [IsVisible l t], readVisible b h l t)"

definition allTextContents :: "locator \<Rightarrow> string list prog" where
  "allTextContents l b h = (h @ [AllTextContents l], readTexts b h l)"

text \<open>\<^verbatim>\<open>.catch(() => null)\<close> and \<^verbatim>\<open>.catch(() => false)\<close> on a probe.\<close>

definition catchNull :: "string option prog \<Rightarrow> string option prog" where
  "catchNull m = thenDo (attempt m) (\<lambda>r. succeed (case r of Inl _ \<Rightarrow> None | Inr v \<Rightarrow> v))"

definition catchFalse :: "bool prog \<Rightarrow> bool prog" where
  "catchFalse m = thenDo (attempt m) (\<lambda>r. succeed (case r of Inl _ \<Rightarrow> False | Inr v \<Rightarrow> v))"

text \<open>A string or null in a JavaScript condition: null and the empty string are falsy.\<close>

definition truthy :: "string option \<Rightarrow> bool" where
  "truthy v = (case v of None \<Rightarrow> False | Some s \<Rightarrow> s \<noteq> [])"

text \<open>\<^verbatim>\<open>Number.prototype.toString\<close> on a natural number: its decimal digits.\<close>

fun showNat :: "nat \<Rightarrow> string" where
  "showNat n = (if n < 10 then [''0123456789'' ! n]
                else showNat (n div 10) @ [''0123456789'' ! (n mod 10)])"

declare showNat.simps [simp del]

fun join :: "string \<Rightarrow> string list \<Rightarrow> string" where
  "join sep [] = []"
| "join sep [x] = x"
| "join sep (x # y # ys) = x @ sep @ join sep (y # ys)"

section \<open>search-helpers.ts\<close>

definition sidebarSearchInput :: locator where
  \<open>sidebarSearchInput = Sub (Css ''#leftpane'') (Css ''input[placeholder*="search" i]'')\<close>

definition searchInSidebar :: "string \<Rightarrow> unit prog" where
  "searchInSidebar searchString =
     steps [act (Clear sidebarSearchInput),
            act (Fill sidebarSearchInput searchString),
            act (Press sidebarSearchInput ''Enter'')]"

definition firstResult :: locator where
  "firstResult = First (Css ''#filterlist li'')"

definition searchResultAppears :: "pattern \<Rightarrow> unit prog" where
  "searchResultAppears searchString = act (ExpectText firstResult searchString (Some 5000))"

definition useSearchInput :: "locator \<Rightarrow> string \<Rightarrow> pattern option \<Rightarrow> unit prog" where
  "useSearchInput locator searchString expectedString =
     steps [act (PressSequentially locator searchString 50),
            act (ExpectAttribute locator ''title''
                   (case expectedString of None \<Rightarrow> Str searchString | Some e \<Rightarrow> e) 5000)]"

section \<open>tab-helpers.ts\<close>

datatype Tab = Dashboard | Contacts | Patients | Clinical | Financial | Reporting | Admin | Help

fun tabName :: "Tab \<Rightarrow> string" where
  "tabName Dashboard = ''Dashboard''"
| "tabName Contacts = ''Contacts''"
| "tabName Patients = ''Patients''"
| "tabName Clinical = ''Clinical''"
| "tabName Financial = ''Financial''"
| "tabName Reporting = ''Reporting''"
| "tabName Admin = ''Admin''"
| "tabName Help = ''Help''"

text \<open>\<^verbatim>\<open>tab === 'Patients' ? 'animals' : tab.toLowerCase()\<close>\<close>

fun tabIcon :: "Tab \<Rightarrow> string" where
  "tabIcon Dashboard = ''dashboard''"
| "tabIcon Contacts = ''contacts''"
| "tabIcon Patients = ''animals''"
| "tabIcon Clinical = ''clinical''"
| "tabIcon Financial = ''financial''"
| "tabIcon Reporting = ''reporting''"
| "tabIcon Admin = ''admin''"
| "tabIcon Help = ''help''"

definition navigateToTab :: "Tab \<Rightarrow> unit prog" where
  "navigateToTab tab =
     steps [act (Click (Role ''tab'' (''primary-tab-icon-'' @ tabIcon tab)) False),
            act (ExpectText (Css (''.ezy'' @ [CHR 0x5C] @ '':bg-background-ui'')) (Str (tabName tab))
                   None)]"

definition navigateToAnimalsTab :: "unit prog" where
  "navigateToAnimalsTab =
     steps [navigateToTab Patients,
            act (ExpectVisible (Sub (Css ''.tabSliderHolder'') (Text (Str ''New Patient'') False))
                   (Some 5000))]"

definition navigateToContactsTab :: "unit prog" where
  "navigateToContactsTab =
     steps [navigateToTab Contacts,
            act (ExpectVisible (Sub (Css ''.tabSliderHolder'') (Text (Str ''New Contact'') False))
                   (Some 5000))]"

section \<open>contact-helpers.ts\<close>

datatype ContactType = Customer | Supplier | Vet | Syndicate | StaffMember | Pharmacy

fun typeName :: "ContactType \<Rightarrow> string" where
  "typeName Customer = ''Customer''"
| "typeName Supplier = ''Supplier''"
| "typeName Vet = ''Vet''"
| "typeName Syndicate = ''Syndicate''"
| "typeName StaffMember = ''Staff Member''"
| "typeName Pharmacy = ''Pharmacy''"

record ContactName =
  firstName :: string
  lastName :: string

text \<open>The parameter \<^verbatim>\<open>contactType: ContactType | ContactType[]\<close>.\<close>

datatype ContactTypeArg = One ContactType | Many "ContactType list"

definition contactTypeList :: "ContactTypeArg \<Rightarrow> ContactType list" where
  "contactTypeList contactType = (case contactType of One t \<Rightarrow> [t] | Many ts \<Rightarrow> ts)"

definition checkbox :: "ContactType \<Rightarrow> locator" where
  "checkbox t = Role ''checkbox'' (typeName t)"

definition fullName :: "ContactName \<Rightarrow> string" where
  "fullName contactName = firstName contactName @ '' '' @ lastName contactName"

text \<open>
  The source of the regular expression of line 62, and the regular expression when the
  constructor returns one.
\<close>

definition contactSource :: "ContactName \<Rightarrow> string" where
  "contactSource contactName = ''-  '' @ lastName contactName @ '', '' @ firstName contactName"

definition contactPattern :: "ContactName \<Rightarrow> pattern" where
  "contactPattern contactName = Rx (contactSource contactName)"

text \<open>
  Lines 50 to 57 of \<^verbatim>\<open>createContact\<close>: open the Contacts tab, wait for the list, search
  for the contact by \<open>firstName lastName\<close>.
\<close>

definition resultList :: locator where
  "resultList = First (Sub (Css ''#filterlist'') (Css ''li''))"

definition createContact_search :: "ContactName \<Rightarrow> unit prog" where
  "createContact_search contactName =
     steps [navigateToContactsTab,
            act (ExpectVisible resultList (Some 10000)),
            searchInSidebar (fullName contactName)]"

text \<open>
  Lines 74 to 116 of \<^verbatim>\<open>createContact\<close>: what runs once the search has not found the
  contact. The regular expression of line 108 is constructed after the click on Save and
  outside any \<^verbatim>\<open>try\<close>: an error of the constructor is thrown by the call. The log lines
  are recorded without their leading pictograph.
\<close>

definition createContact_fill :: "ContactName \<Rightarrow> ContactTypeArg \<Rightarrow> unit prog" where
  \<open>createContact_fill contactName contactType =
     steps ([act (Click (checkbox Customer) False)]
            @ map (\<lambda>t. act (Click (checkbox t) False)) (contactTypeList contactType)
            @ [act (Fill (Role ''textbox'' ''First Name'') (firstName contactName)),
               act (Fill (Role ''textbox'' ''Last Name'') (lastName contactName)),
               act (Fill (Css ''[id="EmailPhone[1][emailphonedata_content]"]'') ''test@test.com''),
               useSearchInput (Sub (Css ''.inputSectionContent'') (TestId ''EmailPhoneType''))
                 ''Email'' None,
               act (Click (TestId ''Save'') False),
               thenDo (newRegExp (lastName contactName @ '', '' @ firstName contactName))
                 (\<lambda>name. act (ExpectVisible (Sub (Css ''.sidebar'') (Text name False))
                                 (Some 3000))),
               consoleLog (''Contact "'' @ fullName contactName @ ''" created successfully.'')])\<close>

text \<open>
  The \<^verbatim>\<open>try\<close> block holds the construction of the regular expression (the argument of
  the call of \<^verbatim>\<open>searchResultAppears\<close>), the probe, a log line and \<^verbatim>\<open>return\<close>; the
  \<^verbatim>\<open>catch\<close> block only logs, and the creation follows it. An error of the constructor is
  caught like an error of the probe.
\<close>

definition createContact :: "ContactName \<Rightarrow> ContactTypeArg \<Rightarrow> unit prog" where
  \<open>createContact contactName contactType =
     andThen (createContact_search contactName)
    (thenDo (attempt (thenDo (newRegExp (contactSource contactName)) searchResultAppears))
       (\<lambda>r. case r of
          Inr _ \<Rightarrow> consoleLog (''Contact "'' @ fullName contactName @ ''" found.'')
        | Inl e \<Rightarrow>
            andThen (consoleLog (''Contact "'' @ fullName contactName @ ''" not found. Creating...''))
              (createContact_fill contactName contactType)))\<close>

definition createCustomer :: "ContactName \<Rightarrow> unit prog" where
  "createCustomer customerName = createContact customerName (One Customer)"

section \<open>patient-helpers.ts\<close>

text \<open>
  The source of the regular expression of line 32, and the regular expression when the
  constructor returns one.
\<close>

definition animalSource :: "string \<Rightarrow> string" where
  \<open>animalSource animalName = ''"'' @ animalName @ ''"''\<close>

definition animalPattern :: "string \<Rightarrow> pattern" where
  "animalPattern animalName = Rx (animalSource animalName)"

definition nameField :: locator where
  \<open>nameField = Css ''input[name="animaldata_name"]''\<close>

definition errorToast :: locator where
  \<open>errorToast = First (Css ''.toast-error, [class*="toast"][class*="error"]'')\<close>

definition successToast :: locator where
  \<open>successToast = First (Css ''.toast-success, [class*="toast"][class*="success"]'')\<close>

text \<open>Lines 25 to 29 of \<^verbatim>\<open>createAnimal\<close>.\<close>

definition createAnimal_search :: "string \<Rightarrow> unit prog" where
  "createAnimal_search animalName =
     steps [navigateToAnimalsTab,
            act (ExpectVisible resultList (Some 10000)),
            searchInSidebar animalName]"

text \<open>
  Lines 42 to 54: open the owner dropdown and search for the owner in the sidebar
  input. The search text is \<open>ownerName\<close> as passed.
\<close>

definition searchOwner :: "string \<Rightarrow> unit prog" where
  \<open>searchOwner ownerName =
     andThen
       (steps [consoleLog (''Searching for owner: '' @ ownerName),
               act (Click (First (Css ''[id^="clientcontactDropdown"] .icon'')) True),
               waitForTimeout 1500,
               act (Fill sidebarSearchInput ownerName),
               act (Press sidebarSearchInput ''Enter''),
               waitForTimeout 1000])
       (thenDo (allTextContents (Css ''#filterlist li''))
          (\<lambda>allItems. consoleLog (''Available contacts in filterlist: '' @ join '', '' allItems)))\<close>

text \<open>Lines 57 to 70: select the owner from the filtered list.\<close>

definition matchingItem :: "string \<Rightarrow> locator" where
  "matchingItem ownerName = First (HasText (Css ''#filterlist li'') (Str ownerName))"

definition chooseOwner :: "string \<Rightarrow> unit prog" where
  "chooseOwner ownerName =
     thenDo (catchFalse (isVisible (matchingItem ownerName) 2000))
       (\<lambda>visible.
          andThen
            (if visible
             then steps [act (Click (matchingItem ownerName) True),
                         consoleLog ''Owner selected by name match'']
             else steps [consoleLog ''Exact name match not found, selecting first item in list'',
                         act (Click firstResult True)])
            (steps [waitForTimeout 2000, consoleLog ''Owner selected'']))"

text \<open>
  The parameter \<^verbatim>\<open>age?: number\<close>. The helpers test the age against \<^verbatim>\<open>null\<close> and type
  \<^verbatim>\<open>age.toString()\<close>; they use it in no other way. So a number is given by the text that
  \<^verbatim>\<open>toString\<close> returns for it, and an absent age is \<open>None\<close>.
\<close>

type_synonym number = string

definition toString :: "number \<Rightarrow> string" where
  "toString n = n"

text \<open>
  The colour, age and tag fields: lines 72 to 92 of \<^verbatim>\<open>createAnimal\<close>, and the same
  statements at lines 162 to 182 of \<^verbatim>\<open>createAnimalWithOwner\<close>.
\<close>

definition fillAge :: "number option \<Rightarrow> unit prog" where
  \<open>fillAge age =
     (case age of
        None \<Rightarrow> succeed ()
      | Some a \<Rightarrow>
          steps [act (Click (Css ''input[value="Not Set"]'') False),
                 act (KeyboardType (toString a)),
                 act (ExpectChecked (Css ''input[name="animaldata_estimated"]:visible''))])\<close>

definition fillTags :: "string list option \<Rightarrow> unit prog" where
  "fillTags tags =
     (case tags of
        None \<Rightarrow> succeed ()
      | Some ts \<Rightarrow>
          steps (act (Click (Sub (Text (Str ''General'') True)
                                 (Css ''xpath=following-sibling::*[2]//ul[1]'')) False)
                 # concat (map (\<lambda>tag. [act (KeyboardType tag), act (KeyboardPress ''Enter'')]) ts)))"

definition fillDetails :: "number option \<Rightarrow> string list option \<Rightarrow> unit prog" where
  "fillDetails age tags =
     steps [useSearchInput (TestId ''AnimalColour'') ''Bald'' None, fillAge age, fillTags tags]"

text \<open>Lines 39 to 95 of \<^verbatim>\<open>createAnimal\<close>: fill the form and click Save.\<close>

definition createAnimal_fill ::
  "string \<Rightarrow> string \<Rightarrow> number option \<Rightarrow> string list option \<Rightarrow> unit prog" where
  "createAnimal_fill animalName ownerName age tags =
     steps [act (Fill nameField animalName),
            searchOwner ownerName,
            chooseOwner ownerName,
            fillDetails age tags,
            act (Click (TestId ''Save'') False),
            waitForTimeout 3000]"

text \<open>
  Lines 97 to 129 of \<^verbatim>\<open>createAnimal\<close>: read the toasts, then the sidebar. The regular
  expression of line 124 is constructed outside any \<^verbatim>\<open>try\<close>.
\<close>

definition createAnimal_verify :: "string \<Rightarrow> unit prog" where
  \<open>createAnimal_verify animalName =
     thenDo (catchNull (textContent errorToast 2000))
       (\<lambda>errorText.
          if truthy errorText
          then andThen (consoleLog (''Error toast detected: '' @ the errorText))
                 (throw (''Failed to create animal: '' @ the errorText))
          else
            thenDo (catchNull (textContent successToast 2000))
              (\<lambda>successText.
                 if truthy successText
                 then steps [consoleLog (''Success toast: '' @ the successText),
                             consoleLog (''Animal "'' @ animalName @ ''" created successfully.'')]
                 else steps [consoleLog ''No toast message detected'',
                             thenDo (newRegExp animalName)
                               (\<lambda>name. act (ExpectVisible
                                               (Sub (Css ''.sidebar'') (Text name False))
                                               (Some 5000))),
                             consoleLog (''Animal "'' @ animalName @ ''" created successfully.'')]))\<close>

text \<open>
  Lines 25 to 37 of \<^verbatim>\<open>createAnimal\<close>, then the creation. As in \<^verbatim>\<open>createContact\<close>, the
  regular expression is constructed inside the \<^verbatim>\<open>try\<close> block.
\<close>

definition createAnimal ::
  "string \<Rightarrow> string \<Rightarrow> number option \<Rightarrow> string list option \<Rightarrow> unit prog" where
  \<open>createAnimal animalName ownerName age tags =
     andThen (createAnimal_search animalName)
    (thenDo (attempt (thenDo (newRegExp (animalSource animalName)) searchResultAppears))
       (\<lambda>r. case r of
          Inr _ \<Rightarrow> consoleLog (''Animal "'' @ animalName @ ''" found.'')
        | Inl e \<Rightarrow>
            steps [consoleLog (''Animal "'' @ animalName @ ''" not found. Creating...''),
                   createAnimal_fill animalName ownerName age tags,
                   createAnimal_verify animalName]))\<close>

text \<open>Lines 153 to 190 of \<^verbatim>\<open>createAnimalWithOwner\<close>: fill the open form, click Save.\<close>

definition createAnimalWithOwner_fill ::
  "string \<Rightarrow> number option \<Rightarrow> string list option \<Rightarrow> unit prog" where
  "createAnimalWithOwner_fill animalName age tags =
     steps [consoleLog (''Filling patient details for: '' @ animalName),
            act (Fill nameField animalName),
            waitForTimeout 1000,
            fillDetails age tags,
            waitForTimeout 2000,
            consoleLog ''Saving patient record...'',
            act (Click (Nth (TestId ''Save'') 1) False),
            waitForTimeout 3000]"

text \<open>Lines 192 to 217 of \<^verbatim>\<open>createAnimalWithOwner\<close>: read the toasts.\<close>

definition createAnimalWithOwner_verify :: "string \<Rightarrow> unit prog" where
  \<open>createAnimalWithOwner_verify animalName =
     thenDo (catchNull (textContent errorToast 2000))
       (\<lambda>errorText.
          if truthy errorText
          then andThen (consoleLog (''Error toast detected: '' @ the errorText))
                 (throw (''Failed to create animal: '' @ the errorText))
          else
            thenDo (catchNull (textContent successToast 2000))
              (\<lambda>successText.
                 if truthy successText
                 then steps [consoleLog (''Success toast: '' @ the successText),
                             consoleLog (''Animal "'' @ animalName @ ''" created successfully.'')]
                 else steps [consoleLog ''No toast message detected'',
                             consoleLog (''Animal "'' @ animalName @ ''" created successfully.'')]))\<close>

text \<open>The parameters \<open>ownerFirstName\<close> and \<open>ownerLastName\<close> are not used by the body.\<close>

definition createAnimalWithOwner ::
  "string \<Rightarrow> string \<Rightarrow> string \<Rightarrow> number option \<Rightarrow> string list option \<Rightarrow> unit prog" where
  "createAnimalWithOwner animalName ownerFirstName ownerLastName age tags =
     andThen (createAnimalWithOwner_fill animalName age tags)
       (createAnimalWithOwner_verify animalName)"

section \<open>EzyVetLoginPage.ts\<close>

definition emailInput :: locator where
  "emailInput = Css ''#input-email, #login-email''"

definition passwordInput :: locator where
  "passwordInput = Css ''#input-password, #login-password''"

definition loginButton :: locator where
  "loginButton = First (Text (Str ''Login'') True)"

definition locationHeading :: locator where
  "locationHeading = Text (Str ''Please select a location'') False"

definition goto :: "unit prog" where
  "goto = act (Goto ''/'')"

text \<open>
  \<^verbatim>\<open>location || 'Master branch (Database)'\<close>: an absent and an empty location both give
  the default.
\<close>

definition locationName :: "string option \<Rightarrow> string" where
  "locationName location =
     (case location of
        None \<Rightarrow> ''Master branch (Database)''
      | Some l \<Rightarrow> if l = [] then ''Master branch (Database)'' else l)"

text \<open>
  The first wait is inside \<^verbatim>\<open>try\<close>, and its \<^verbatim>\<open>catch\<close> returns. The error of the last
  wait is dropped by \<^verbatim>\<open>.catch(() => {})\<close>.
\<close>

definition selectLocation :: "string option \<Rightarrow> unit prog" where
  "selectLocation location =
     thenDo (attempt (act (WaitForVisible locationHeading 10000)))
       (\<lambda>r. case r of
          Inl _ \<Rightarrow> succeed ()
        | Inr _ \<Rightarrow>
            steps [act (WaitForVisible (Text (Str (locationName location)) False) 5000),
                   act (Click (Text (Str (locationName location)) False) False),
                   thenDo (attempt (act (WaitForLoadState ''networkidle'' 5000)))
                     (\<lambda>_. succeed ())])"

definition login :: "string \<Rightarrow> string \<Rightarrow> string option \<Rightarrow> unit prog" where
  "login email password location =
     steps [act (Fill emailInput email),
            act (Fill passwordInput password),
            act (Click loginButton False),
            selectLocation location,
            act (WaitForURLWithout ''/login.php'' 30000)]"

definition expectLoginSuccess :: "unit prog" where
  "expectLoginSuccess =
     steps [act (ExpectURL (Str ''/'')),
            act (ExpectVisible (First (Css ''text=/^[A-Z]{2}$/'')) None)]"

section \<open>ezyvet-auth-helpers.ts\<close>

definition ezyVetLogin :: "string \<Rightarrow> string \<Rightarrow> string option \<Rightarrow> unit prog" where
  "ezyVetLogin email password department =
     steps [goto, login email password department, expectLoginSuccess]"

text \<open>
  The loop of \<^verbatim>\<open>ezyVetLoginWithRetry\<close>, from the value of \<open>attempt\<close> and of \<open>lastError\<close>
  (the message of the last error caught, if any). The count \<open>maxRetries\<close> is a natural
  number. The log of a failed attempt is recorded with the error's message.
\<close>

function loginLoop ::
  "string \<Rightarrow> string \<Rightarrow> string option \<Rightarrow> nat \<Rightarrow> nat \<Rightarrow> string option \<Rightarrow> unit prog" where
  "loginLoop email password department maxRetries n lastError b h =
     (if n \<le> maxRetries
      then
        (case andThen (consoleLog (''Login attempt '' @ showNat n @ ''/'' @ showNat maxRetries))
                (attempt (ezyVetLogin email password department)) b h of
           (h1, Inl e) \<Rightarrow> (h1, Inl e)
         | (h1, Inr (Inr _)) \<Rightarrow> consoleLog ''Login successful'' b h1
         | (h1, Inr (Inl error)) \<Rightarrow>
             (case andThen (consoleLog (''Login attempt '' @ showNat n @ '' failed: '' @ error))
                     (if n < maxRetries
                      then steps [consoleLog ''Retrying login...'', waitForTimeout 2000]
                      else succeed ()) b h1 of
                (h2, Inl e) \<Rightarrow> (h2, Inl e)
              | (h2, Inr _) \<Rightarrow>
                  loginLoop email password department maxRetries (n + 1) (Some error) b h2))
      else throw (''Login failed after '' @ showNat maxRetries @ '' attempts: ''
                  @ (case lastError of None \<Rightarrow> ''undefined'' | Some msg \<Rightarrow> msg)) b h)"
  by pat_completeness auto
termination
  by (relation "measure (\<lambda>(email, password, department, maxRetries, n, lastError, b, h).
                           maxRetries + 1 - n)") auto

declare loginLoop.simps [simp del]

text \<open>The parameter \<^verbatim>\<open>maxRetries: number = 2\<close>.\<close>

definition ezyVetLoginWithRetry ::
  "string \<Rightarrow> string \<Rightarrow> string option \<Rightarrow> nat option \<Rightarrow> unit prog" where
  "ezyVetLoginWithRetry email password department maxRetries =
     loginLoop email password department (case maxRetries of None \<Rightarrow> 2 | Some m \<Rightarrow> m) 1 None"

section \<open>appointment-creation.spec.ts\<close>

text \<open>
  Lines 62 to 82 of the test: fill the field \<^emph>\<open>People/Resources Used\<close> from its
  dropdown.
\<close>

definition resourceField :: locator where
  \<open>resourceField = TestId ''Resource''\<close>

definition selectResource :: "unit prog" where
  \<open>selectResource =
     steps [consoleLog ''Selecting People/Resources Used...'',
            waitForTimeout 2000,
            act (Click (Sub (Sub resourceField
                               (Css ''xpath=ancestor::div[contains(@class, "newDropDown")]''))
                          (Css ''.icon-magnifying-glass'')) True),
            waitForTimeout 1500,
            act (Fill resourceField ''Dr ''),
            waitForTimeout 1500,
            act (Click (First (HasText (Css ''.dropDownList.dropdown .dropDownListItem'')
                                 (RxI ''Dr''))) True),
            waitForTimeout 1000,
            consoleLog ''People/Resources Used field filled'']\<close>

section \<open>Observations on a run\<close>

text \<open>The commands a call adds to the history.\<close>

definition trace :: "'a prog \<Rightarrow> browser \<Rightarrow> action list \<Rightarrow> action list" where
  "trace m b h = drop (length h) (fst (m b h))"

text \<open>A click on a Save control: the first one, or one chosen by its index.\<close>

fun isSaveClick :: "action \<Rightarrow> bool" where
  "isSaveClick (Click (TestId s) f) = (s = ''Save'')"
| "isSaveClick (Click (Nth (TestId s) n) f) = (s = ''Save'')"
| "isSaveClick _ = False"

definition saveClicks :: "action list \<Rightarrow> nat" where
  "saveClicks as = length (filter isSaveClick as)"



text \<open>A command of a search for an existing record: on the sidebar search input, or the
  probe of the first result.\<close>

fun isSearchAction :: "action \<Rightarrow> bool" where
  "isSearchAction (Clear l) = (l = sidebarSearchInput)"
| "isSearchAction (Fill l s) = (l = sidebarSearchInput)"
| "isSearchAction (Press l k) = (l = sidebarSearchInput)"
| "isSearchAction (ExpectText l p t) = (l = firstResult)"
| "isSearchAction _ = False"

fun fillsOf :: "action list \<Rightarrow> (locator \<times> string) list" where
  "fillsOf [] = []"
| "fillsOf (Fill l s # as) = (l, s) # fillsOf as"
| "fillsOf (a # as) = fillsOf as"

text \<open>
  The existence check of the resolve phase, for the source of a regular expression. The
  check finds the record when the constructor returns the regular expression and the
  first result matches it within 5 seconds. The check sends its probe only when the
  constructor returns.
\<close>

definition resolves :: "browser \<Rightarrow> action list \<Rightarrow> string \<Rightarrow> bool" where
  "resolves b h src =
     (syntaxError b src = None \<and> perform b h (ExpectText firstResult (Rx src) (Some 5000)) = None)"

definition probeTrace :: "browser \<Rightarrow> string \<Rightarrow> action list" where
  "probeTrace b src =
     (case syntaxError b src of
        None \<Rightarrow> [ExpectText firstResult (Rx src) (Some 5000)]
      | Some msg \<Rightarrow> [])"


text \<open>
  \<open>issues P n m\<close>: whatever the page answers, a call of \<open>m\<close> extends the history, and at
  most \<open>n\<close> of the commands it adds satisfy \<open>P\<close>.
\<close>

definition issues :: "(action \<Rightarrow> bool) \<Rightarrow> nat \<Rightarrow> 'a prog \<Rightarrow> bool" where
  "issues P n m = (\<forall>b h. \<exists>t. fst (m b h) = h @ t \<and> length (filter P t) \<le> n)"

subsection \<open>The classification checkboxes of the contact form\<close>

text \<open>
  The state of the checkboxes is the set of the types that are checked. A click on the
  checkbox of a type toggles it; no other command changes the state.
\<close>

definition allTypes :: "ContactType list" where
  "allTypes = [Customer, Supplier, Vet, Syndicate, StaffMember, Pharmacy]"

definition checkboxClicked :: "action \<Rightarrow> ContactType option" where
  "checkboxClicked a =
     (case a of Click l f \<Rightarrow> find (\<lambda>t. l = checkbox t) allTypes | _ \<Rightarrow> None)"

definition toggle :: "ContactType set \<Rightarrow> action \<Rightarrow> ContactType set" where
  "toggle S a =
     (case checkboxClicked a of
        None \<Rightarrow> S
      | Some t \<Rightarrow> if t \<in> S then S - {t} else insert t S)"

definition checkedAfter :: "action list \<Rightarrow> ContactType set \<Rightarrow> ContactType set" where
  "checkedAfter as S = foldl toggle S as"

text \<open>The types whose checkboxes a list of commands clicks, in order.\<close>

fun checkboxClicks :: "action list \<Rightarrow> ContactType list" where
  "checkboxClicks [] = []"
| "checkboxClicks (a # as) =
     (case checkboxClicked a of None \<Rightarrow> checkboxClicks as | Some t \<Rightarrow> t # checkboxClicks as)"

subsection \<open>Regular expressions without syntax characters\<close>

text \<open>
  A regular expression whose source has no syntax character matches a text exactly when
  the source occurs in the text. \<open>includesStr text s\<close> is \<^verbatim>\<open>text.includes(s)\<close>.
\<close>

fun startsWith :: "string \<Rightarrow> string \<Rightarrow> bool" where
  "startsWith text [] = True"
| "startsWith [] (c # cs) = False"
| "startsWith (d # ds) (c # cs) = (d = c \<and> startsWith ds cs)"

fun includesStr :: "string \<Rightarrow> string \<Rightarrow> bool" where
  "includesStr [] s = (s = [])"
| "includesStr (d # ds) s = (startsWith (d # ds) s \<or> includesStr ds s)"

definition syntaxCharacters :: string where
  "syntaxCharacters = ''^$.*+?()[]{}|'' @ [CHR 0x5C]"

definition literalSource :: "string \<Rightarrow> bool" where
  "literalSource src = list_all (\<lambda>c. c \<notin> set syntaxCharacters) src"

text \<open>
  A matcher says whether a text satisfies a pattern. It is literal when on every regular
  expression without syntax characters it is the substring test.
\<close>

definition literalMatcher :: "(pattern \<Rightarrow> string \<Rightarrow> bool) \<Rightarrow> bool" where
  "literalMatcher matches =
     (\<forall>src text. literalSource src \<longrightarrow> matches (Rx src) text = includesStr text src)"

definition substringMatcher :: "pattern \<Rightarrow> string \<Rightarrow> bool" where
  "substringMatcher p text =
     (case p of Str s \<Rightarrow> text = s | Rx src \<Rightarrow> includesStr text src | RxI src \<Rightarrow> includesStr text src)"

subsection \<open>The commands of runs in which every command completes\<close>

text \<open>The commands of the two search phases, when each of them completes.\<close>

definition contactSearchTrace :: "ContactName \<Rightarrow> action list" where
  "contactSearchTrace cn =
     [Click (Role ''tab'' ''primary-tab-icon-contacts'') False,
      ExpectText (Css (''.ezy'' @ [CHR 0x5C] @ '':bg-background-ui'')) (Str ''Contacts'') None,
      ExpectVisible (Sub (Css ''.tabSliderHolder'') (Text (Str ''New Contact'') False)) (Some 5000),
      ExpectVisible resultList (Some 10000),
      Clear sidebarSearchInput,
      Fill sidebarSearchInput (fullName cn),
      Press sidebarSearchInput ''Enter'']"

definition animalSearchTrace :: "string \<Rightarrow> action list" where
  "animalSearchTrace a =
     [Click (Role ''tab'' ''primary-tab-icon-animals'') False,
      ExpectText (Css (''.ezy'' @ [CHR 0x5C] @ '':bg-background-ui'')) (Str ''Patients'') None,
      ExpectVisible (Sub (Css ''.tabSliderHolder'') (Text (Str ''New Patient'') False)) (Some 5000),
      ExpectVisible resultList (Some 10000),
      Clear sidebarSearchInput,
      Fill sidebarSearchInput a,
      Press sidebarSearchInput ''Enter'']"

definition contactFillTrace :: "ContactName \<Rightarrow> ContactTypeArg \<Rightarrow> action list" where
  \<open>contactFillTrace cn ct =
     Click (checkbox Customer) False
     # map (\<lambda>t. Click (checkbox t) False) (contactTypeList ct)
     @ [Fill (Role ''textbox'' ''First Name'') (firstName cn),
        Fill (Role ''textbox'' ''Last Name'') (lastName cn),
        Fill (Css ''[id="EmailPhone[1][emailphonedata_content]"]'') ''test@test.com'',
        PressSequentially (Sub (Css ''.inputSectionContent'') (TestId ''EmailPhoneType''))
          ''Email'' 50,
        ExpectAttribute (Sub (Css ''.inputSectionContent'') (TestId ''EmailPhoneType''))
          ''title'' (Str ''Email'') 5000,
        Click (TestId ''Save'') False,
        ExpectVisible
          (Sub (Css ''.sidebar'') (Text (Rx (lastName cn @ '', '' @ firstName cn)) False))
          (Some 3000),
        Log (''Contact "'' @ fullName cn @ ''" created successfully.'')]\<close>

text \<open>
  The commands of a call of \<open>createContact\<close> whose probe does not find the contact and
  that creates it.
\<close>

definition contactCreatedTrace :: "ContactName \<Rightarrow> ContactTypeArg \<Rightarrow> action list" where
  \<open>contactCreatedTrace cn ct =
     contactSearchTrace cn
     @ [ExpectText firstResult (contactPattern cn) (Some 5000),
        Log (''Contact "'' @ fullName cn @ ''" not found. Creating...'')]
     @ contactFillTrace cn ct\<close>

text \<open>The commands of the parts of the patient form, when each of them completes.\<close>

definition ownerSearchTrace :: "string \<Rightarrow> string list \<Rightarrow> action list" where
  \<open>ownerSearchTrace ownerName allItems =
     [Log (''Searching for owner: '' @ ownerName),
      Click (First (Css ''[id^="clientcontactDropdown"] .icon'')) True,
      WaitForTimeout 1500,
      Fill sidebarSearchInput ownerName,
      Press sidebarSearchInput ''Enter'',
      WaitForTimeout 1000,
      AllTextContents (Css ''#filterlist li''),
      Log (''Available contacts in filterlist: '' @ join '', '' allItems)]\<close>

definition chooseTrace :: "string \<Rightarrow> bool \<Rightarrow> action list" where
  "chooseTrace ownerName visible =
     IsVisible (matchingItem ownerName) 2000
     # (if visible
        then [Click (matchingItem ownerName) True, Log ''Owner selected by name match'']
        else [Log ''Exact name match not found, selecting first item in list'',
              Click firstResult True])
     @ [WaitForTimeout 2000, Log ''Owner selected'']"

definition ageTrace :: "number option \<Rightarrow> action list" where
  \<open>ageTrace age =
     (case age of
        None \<Rightarrow> []
      | Some a \<Rightarrow> [Click (Css ''input[value="Not Set"]'') False,
                   KeyboardType (toString a),
                   ExpectChecked (Css ''input[name="animaldata_estimated"]:visible'')])\<close>

definition tagsTrace :: "string list option \<Rightarrow> action list" where
  "tagsTrace tags =
     (case tags of
        None \<Rightarrow> []
      | Some ts \<Rightarrow>
          Click (Sub (Text (Str ''General'') True)
                   (Css ''xpath=following-sibling::*[2]//ul[1]'')) False
          # concat (map (\<lambda>tag. [KeyboardType tag, KeyboardPress ''Enter'']) ts))"

definition detailsTrace :: "number option \<Rightarrow> string list option \<Rightarrow> action list" where
  "detailsTrace age tags =
     [PressSequentially (TestId ''AnimalColour'') ''Bald'' 50,
      ExpectAttribute (TestId ''AnimalColour'') ''title'' (Str ''Bald'') 5000]
     @ ageTrace age @ tagsTrace tags"

definition animalFillTrace ::
  "string \<Rightarrow> string \<Rightarrow> number option \<Rightarrow> string list option \<Rightarrow> string list \<Rightarrow> bool \<Rightarrow> action list" where
  "animalFillTrace a ownerName age tags allItems visible =
     Fill nameField a
     # ownerSearchTrace ownerName allItems
     @ chooseTrace ownerName visible
     @ detailsTrace age tags
     @ [Click (TestId ''Save'') False, WaitForTimeout 3000]"

definition animalWithOwnerFillTrace ::
  "string \<Rightarrow> number option \<Rightarrow> string list option \<Rightarrow> action list" where
  "animalWithOwnerFillTrace a age tags =
     [Log (''Filling patient details for: '' @ a),
      Fill nameField a,
      WaitForTimeout 1000]
     @ detailsTrace age tags
     @ [WaitForTimeout 2000,
        Log ''Saving patient record...'',
        Click (Nth (TestId ''Save'') 1) False,
        WaitForTimeout 3000]"

text \<open>
  The commands of a call of \<open>createAnimal\<close> that creates the patient, on a page where the
  probe of the first result finds nothing, the owner list is read as empty, the
  visibility probe answers \<open>visible\<close> and a success toast reads \<open>Saved\<close>.
\<close>

definition animalCreatedTrace ::
  "string \<Rightarrow> string \<Rightarrow> number option \<Rightarrow> string list option \<Rightarrow> bool \<Rightarrow> action list" where
  \<open>animalCreatedTrace a ownerName age tags visible =
     animalSearchTrace a
     @ [ExpectText firstResult (animalPattern a) (Some 5000),
        Log (''Animal "'' @ a @ ''" not found. Creating...'')]
     @ animalFillTrace a ownerName age tags [] visible
     @ [TextContent errorToast 2000,
        TextContent successToast 2000,
        Log ''Success toast: Saved'',
        Log (''Animal "'' @ a @ ''" created successfully.'')]\<close>

text \<open>The commands of \<open>selectResource\<close> when each of them completes.\<close>

definition resourceTrace :: "action list" where
  \<open>resourceTrace =
     [Log ''Selecting People/Resources Used...'',
      WaitForTimeout 2000,
      Click (Sub (Sub resourceField
                    (Css ''xpath=ancestor::div[contains(@class, "newDropDown")]''))
               (Css ''.icon-magnifying-glass'')) True,
      WaitForTimeout 1500,
      Fill resourceField ''Dr '',
      WaitForTimeout 1500,
      Click (First (HasText (Css ''.dropDownList.dropdown .dropDownListItem'') (RxI ''Dr''))) True,
      WaitForTimeout 1000,
      Log ''People/Resources Used field filled'']\<close>

subsection \<open>Pages for the examples\<close>

definition timeoutError :: string where
  "timeoutError = ''Timeout exceeded''"

text \<open>
  The engine of the examples. It accepts the sources without syntax characters and
  refuses every other source. The examples construct regular expressions from names
  without syntax characters and from the name \<^verbatim>\<open>Rex(\<close>, whose parenthesis is not closed:
  on these sources JavaScript does the same.
\<close>

definition literalEngine :: "string \<Rightarrow> string option" where
  "literalEngine src = (if literalSource src then None else Some ''Invalid regular expression'')"

text \<open>
  A page given by its answer to the commands, the text of its toasts and the visibility
  it reports. A toast that is absent makes the probe time out.
\<close>

definition stubPage ::
  "(action list \<Rightarrow> action \<Rightarrow> string option) \<Rightarrow> (locator \<Rightarrow> string option) \<Rightarrow> bool \<Rightarrow> browser" where
  "stubPage answer toast visible =
     \<lparr> perform = answer,
       readText = (\<lambda>h l t. case toast l of None \<Rightarrow> Inl timeoutError | Some s \<Rightarrow> Inr (Some s)),
       readVisible = (\<lambda>h l t. Inr visible),
       readTexts = (\<lambda>h l. Inr []),
       syntaxError = literalEngine \<rparr>"

definition toasts :: "string option \<Rightarrow> string option \<Rightarrow> locator \<Rightarrow> string option" where
  "toasts e s l = (if l = errorToast then e else if l = successToast then s else None)"

text \<open>Every command completes.\<close>

definition allOk :: "action list \<Rightarrow> action \<Rightarrow> string option" where
  "allOk h a = None"

text \<open>The search never shows a first result that matches.\<close>

definition noResult :: "action list \<Rightarrow> action \<Rightarrow> string option" where
  "noResult h a =
     (case a of
        ExpectText l p t \<Rightarrow> if l = firstResult then Some timeoutError else None
      | _ \<Rightarrow> None)"

text \<open>The first result of every search reads \<open>text\<close>.\<close>

definition listing :: "(pattern \<Rightarrow> string \<Rightarrow> bool) \<Rightarrow> string \<Rightarrow> action list \<Rightarrow> action \<Rightarrow> string option" where
  "listing matches text h a =
     (case a of
        ExpectText l p t \<Rightarrow>
          if l = firstResult \<and> \<not> matches p text then Some timeoutError else None
      | _ \<Rightarrow> None)"

text \<open>
  The list is empty until Save has been clicked; from then on the first result of every
  search reads \<open>text\<close>.
\<close>

definition resultAfterSave ::
  "(pattern \<Rightarrow> string \<Rightarrow> bool) \<Rightarrow> string \<Rightarrow> action list \<Rightarrow> action \<Rightarrow> string option" where
  "resultAfterSave matches text h a =
     (case a of
        ExpectText l p t \<Rightarrow>
          if l = firstResult \<and> (saveClicks h = 0 \<or> \<not> matches p text) then Some timeoutError
          else None
      | _ \<Rightarrow> None)"

text \<open>The location screen does not appear.\<close>

definition noHeading :: "action list \<Rightarrow> action \<Rightarrow> string option" where
  "noHeading h a =
     (case a of
        WaitForVisible l t \<Rightarrow> if l = locationHeading then Some timeoutError else None
      | _ \<Rightarrow> None)"

text \<open>The first \<open>k\<close> navigations to the application fail.\<close>

fun gotos :: "action list \<Rightarrow> nat" where
  "gotos [] = 0"
| "gotos (Goto u # as) = Suc (gotos as)"
| "gotos (a # as) = gotos as"

definition failingGoto :: "nat \<Rightarrow> action list \<Rightarrow> action \<Rightarrow> string option" where
  "failingGoto k h a =
     (case a of
        Goto u \<Rightarrow> if gotos h < k then Some ''net::ERR_CONNECTION_REFUSED'' else None
      | _ \<Rightarrow> None)"

text \<open>
  Nothing is ever saved: no toast shows, the search finds nothing and the sidebar never
  shows the record. Every other command completes.
\<close>

definition sidebarEmpty :: "action list \<Rightarrow> action \<Rightarrow> string option" where
  "sidebarEmpty h a =
     (case a of
        ExpectText l p t \<Rightarrow> if l = firstResult then Some timeoutError else None
      | ExpectVisible l t \<Rightarrow>
          (case l of
             Sub (Css s) inner \<Rightarrow> if s = ''.sidebar'' then Some timeoutError else None
           | _ \<Rightarrow> None)
      | _ \<Rightarrow> None)"

text \<open>A page on which every command completes and a success toast reads \<open>Saved\<close>.\<close>

definition okPage :: browser where
  "okPage = stubPage allOk (toasts None (Some ''Saved'')) True"


text \<open>The search finds nothing; every other command completes and a success toast shows.\<close>

definition freshPage :: browser where
  "freshPage = stubPage noResult (toasts None (Some ''Saved'')) True"

text \<open>The first result of every search reads \<open>text\<close>; everything else as on \<open>okPage\<close>.\<close>

definition listingPage :: "(pattern \<Rightarrow> string \<Rightarrow> bool) \<Rightarrow> string \<Rightarrow> browser" where
  "listingPage matches text = stubPage (listing matches text) (toasts None (Some ''Saved'')) True"

text \<open>A success toast shows and the error toast is an element without text.\<close>

definition blankErrorPage :: browser where
  "blankErrorPage = stubPage allOk (toasts (Some []) (Some ''Saved'')) True"

definition unsavedPage :: browser where
  "unsavedPage = stubPage sidebarEmpty (toasts None None) True"

text \<open>The search finds nothing and no item of the owner list matches the owner's name.\<close>

definition strangerPage :: browser where
  "strangerPage = stubPage noResult (toasts None (Some ''Saved'')) False"

text \<open>The search finds nothing and, after Save, an error toast shows.\<close>

definition rejectPage :: browser where
  "rejectPage = stubPage noResult (toasts (Some ''Name already exists'') None) True"




definition johnSmith :: ContactName where
  "johnSmith = \<lparr> firstName = ''John'', lastName = ''Smith'' \<rparr>"


definition unresolvedRun :: "action list" where
  \<open>unresolvedRun =
     animalSearchTrace ''Rex(''
     @ [Log ''Animal "Rex(" not found. Creating...'']
     @ animalFillTrace ''Rex('' ''Smith, John'' None None [] True
     @ [TextContent errorToast 2000,
        TextContent successToast 2000,
        Log ''Success toast: Saved'',
        Log ''Animal "Rex(" created successfully.'']\<close>


text \<open>The commands of a call of \<open>createAnimalWithOwner\<close> for Rex on \<open>okPage\<close>.\<close>

definition contextualRun :: "action list" where
  \<open>contextualRun =
     animalWithOwnerFillTrace ''Rex'' None None
     @ [TextContent errorToast 2000,
        TextContent successToast 2000,
        Log ''Success toast: Saved'',
        Log ''Animal "Rex" created successfully.'']\<close>

section \<open>Basic facts about runs\<close>


lemma issues_thenDo:
  assumes "issues P n1 m" and "\<And>x. issues P n2 (k x)"
  shows "issues P (n1 + n2) (thenDo m k)"
  unfolding issues_def
proof (intro allI)
  fix b h
  obtain h1 r where m: "m b h = (h1, r)" by (cases "m b h")
  from assms(1) m obtain t1 where t1: "h1 = h @ t1" "length (filter P t1) \<le> n1"
    unfolding issues_def by (metis fst_conv)
  show "\<exists>t. fst (thenDo m k b h) = h @ t \<and> length (filter P t) \<le> n1 + n2"
  proof (cases r)
    case (Inl e)
    with m t1 show ?thesis by (auto simp: thenDo_def)
  next
    case (Inr v)
    from assms(2) [of v] obtain t2 where t2: "fst (k v b h1) = h1 @ t2" "length (filter P t2) \<le> n2"
      unfolding issues_def by blast
    with m t1 Inr show ?thesis by (auto simp: thenDo_def intro!: exI [of _ "t1 @ t2"])
  qed
qed

lemma never_succeed: "issues P 0 (succeed v)"
  by (simp add: issues_def succeed_def)

lemma never_throw: "issues P 0 (throw e)"
  by (simp add: issues_def throw_def)

lemma never_act: "\<not> P a \<Longrightarrow> issues P 0 (act a)"
  by (simp add: issues_def act_def)

lemma never_consoleLog: "\<not> P (Log s) \<Longrightarrow> issues P 0 (consoleLog s)"
  by (simp add: issues_def consoleLog_def emit_def)

lemma never_waitForTimeout: "\<not> P (WaitForTimeout n) \<Longrightarrow> issues P 0 (waitForTimeout n)"
  by (simp add: issues_def waitForTimeout_def emit_def)

lemma never_textContent: "\<not> P (TextContent l t) \<Longrightarrow> issues P 0 (textContent l t)"
  by (simp add: issues_def textContent_def)

lemma never_isVisible: "\<not> P (IsVisible l t) \<Longrightarrow> issues P 0 (isVisible l t)"
  by (simp add: issues_def isVisible_def)

lemma never_allTextContents: "\<not> P (AllTextContents l) \<Longrightarrow> issues P 0 (allTextContents l)"
  by (simp add: issues_def allTextContents_def)

lemma never_newRegExp: "issues P 0 (newRegExp src)"
  by (simp add: issues_def newRegExp_def)

lemma never_attempt: "issues P 0 m \<Longrightarrow> issues P 0 (attempt m)"
  unfolding issues_def attempt_def by (auto split: prod.splits) (metis fst_conv)

lemma never_thenDo: "issues P 0 m \<Longrightarrow> (\<And>x. issues P 0 (k x)) \<Longrightarrow> issues P 0 (thenDo m k)"
  using issues_thenDo [of P 0 m 0 k] by simp

lemma never_andThen: "issues P 0 m \<Longrightarrow> issues P 0 k \<Longrightarrow> issues P 0 (andThen m k)"
  unfolding andThen_def by (rule never_thenDo)

lemma never_steps: "(\<And>m. m \<in> set ms \<Longrightarrow> issues P 0 m) \<Longrightarrow> issues P 0 (steps ms)"
  by (induction ms) (simp_all add: never_succeed never_andThen)

lemma never_catchNull: "issues P 0 m \<Longrightarrow> issues P 0 (catchNull m)"
  unfolding catchNull_def by (intro never_thenDo never_attempt never_succeed)

lemma never_catchFalse: "issues P 0 m \<Longrightarrow> issues P 0 (catchFalse m)"
  unfolding catchFalse_def by (intro never_thenDo never_attempt never_succeed)

lemmas never_rules = never_succeed never_throw never_act never_consoleLog never_waitForTimeout
  never_textContent never_isVisible never_allTextContents never_attempt never_thenDo
  never_andThen never_steps never_catchNull never_catchFalse never_newRegExp

lemma once_act: "issues P (Suc 0) (act a)"
  by (simp add: issues_def act_def)


lemma once_thenDo_right: "issues P 0 m \<Longrightarrow> (\<And>x. issues P (Suc 0) (k x)) \<Longrightarrow> issues P (Suc 0) (thenDo m k)"
  using issues_thenDo [of P 0 m "Suc 0" k] by simp

lemma once_andThen_right: "issues P 0 m \<Longrightarrow> issues P (Suc 0) k \<Longrightarrow> issues P (Suc 0) (andThen m k)"
  unfolding andThen_def by (rule once_thenDo_right)

lemma once_andThen_left: "issues P (Suc 0) m \<Longrightarrow> issues P 0 k \<Longrightarrow> issues P (Suc 0) (andThen m k)"
  unfolding andThen_def using issues_thenDo [of P "Suc 0" m 0 "\<lambda>_. k"] by simp

lemma andThen_succeed: "andThen (succeed ()) n = n"
  by (intro ext) (simp add: andThen_def thenDo_def succeed_def)

lemma andThen_assoc: "andThen (andThen a c) n = andThen a (andThen c n)"
  by (intro ext) (simp add: andThen_def thenDo_def split: prod.splits sum.splits)

lemma steps_append: "steps (ms @ ns) = andThen (steps ms) (steps ns)"
  by (induction ms) (simp_all add: andThen_succeed andThen_assoc)

lemma once_steps:
  "issues P 0 (steps ms) \<Longrightarrow> issues P (Suc 0) m \<Longrightarrow> issues P 0 (steps ns) \<Longrightarrow>
   issues P (Suc 0) (steps (ms @ m # ns))"
  unfolding steps_append steps.simps
  by (intro once_andThen_right once_andThen_left)

lemma never_useSearchInput:
  "\<not> P (PressSequentially l s 50) \<Longrightarrow> (\<And>p. \<not> P (ExpectAttribute l ''title'' p 5000)) \<Longrightarrow>
   issues P 0 (useSearchInput l s e)"
  unfolding useSearchInput_def by (auto intro!: never_rules)




lemma save_createContact_fill: "issues isSaveClick (Suc 0) (createContact_fill cn ct)"
proof -
  have "issues isSaveClick (Suc 0) (steps (
     ([act (Click (checkbox Customer) False)]
            @ map (\<lambda>t. act (Click (checkbox t) False)) (contactTypeList ct)
            @ [act (Fill (Role ''textbox'' ''First Name'') (firstName cn)),
               act (Fill (Role ''textbox'' ''Last Name'') (lastName cn)),
               act (Fill (Css l) ''test@test.com''),
               useSearchInput (Sub (Css ''.inputSectionContent'') (TestId ''EmailPhoneType''))
                 ''Email'' None]) @ 
               act (Click (TestId ''Save'') False) #
               [thenDo (newRegExp src) (\<lambda>name. act (ExpectVisible (Sub l2 (Text name False)) t2)),
                consoleLog s]))" for l l2 t2 s src
    by (intro once_steps once_act never_steps) (auto intro!: never_rules never_useSearchInput simp: checkbox_def)
  then show ?thesis
    unfolding createContact_fill_def by simp
qed



lemma act_Inr_iff: "act a b h = (h', Inr u) \<longleftrightarrow> h' = h @ [a] \<and> perform b h a = None"
  by (auto simp: act_def split: option.splits)

lemma emit_iff: "emit a b h = (h', r) \<longleftrightarrow> h' = h @ [a] \<and> r = Inr ()"
  by (auto simp: emit_def)

lemma succeed_iff: "succeed v b h = (h', r) \<longleftrightarrow> h' = h \<and> r = Inr v"
  by (auto simp: succeed_def)

lemma thenDo_Inr_iff:
  "thenDo m k b h = (h', Inr v) \<longleftrightarrow> (\<exists>h1 x. m b h = (h1, Inr x) \<and> k x b h1 = (h', Inr v))"
  by (auto simp: thenDo_def split: prod.splits sum.splits)

lemma andThen_Inr_iff:
  "andThen m n b h = (h', Inr v) \<longleftrightarrow> (\<exists>h1. m b h = (h1, Inr ()) \<and> n b h1 = (h', Inr v))"
  by (simp add: andThen_def thenDo_Inr_iff)

lemma newRegExp_Inr_iff:
  "newRegExp src b h = (h', Inr p) \<longleftrightarrow> h' = h \<and> syntaxError b src = None \<and> p = Rx src"
  by (auto simp: newRegExp_def split: option.splits)

lemmas run_simps = act_Inr_iff emit_iff succeed_iff andThen_Inr_iff thenDo_Inr_iff
  consoleLog_def waitForTimeout_def newRegExp_Inr_iff

text \<open>The existence check inside \<^verbatim>\<open>try\<close>: what it sends and what it gives.\<close>

lemma check_run:
  "attempt (thenDo (newRegExp src) searchResultAppears) b h =
     (h @ probeTrace b src,
      Inr (case syntaxError b src of
             Some msg \<Rightarrow> Inl msg
           | None \<Rightarrow>
               (case perform b h (ExpectText firstResult (Rx src) (Some 5000)) of
                  None \<Rightarrow> Inr ()
                | Some e \<Rightarrow> Inl e)))"
  by (simp add: attempt_def thenDo_def newRegExp_def searchResultAppears_def act_def
      probeTrace_def split: option.splits)

lemma check_found:
  "resolves b h src \<Longrightarrow>
   attempt (thenDo (newRegExp src) searchResultAppears) b h =
     (h @ [ExpectText firstResult (Rx src) (Some 5000)], Inr (Inr ()))"
  by (simp add: check_run resolves_def probeTrace_def)

lemma check_not_found:
  "\<not> resolves b h src \<Longrightarrow>
   \<exists>e. attempt (thenDo (newRegExp src) searchResultAppears) b h =
         (h @ probeTrace b src, Inr (Inl e))"
  by (auto simp: check_run resolves_def split: option.splits)

lemma searchInSidebar_Inr:
  "searchInSidebar q b h = (h1, Inr ()) \<Longrightarrow>
   h1 = h @ [Clear sidebarSearchInput, Fill sidebarSearchInput q, Press sidebarSearchInput ''Enter'']"
  by (auto simp: searchInSidebar_def run_simps)



lemma createContact_found:
  assumes "createContact_search cn b h = (h1, Inr ())"
    and "resolves b h1 (contactSource cn)"
  shows \<open>createContact cn ct b h =
          (h1 @ [ExpectText firstResult (contactPattern cn) (Some 5000),
                 Log (''Contact "'' @ fullName cn @ ''" found.'')], Inr ())\<close>
  using assms(1) check_found [OF assms(2)]
  by (simp add: createContact_def andThen_def thenDo_def consoleLog_def emit_def
      contactPattern_def)

lemma createAnimal_found:
  assumes "createAnimal_search a b h = (h1, Inr ())"
    and "resolves b h1 (animalSource a)"
  shows \<open>createAnimal a ow age tags b h =
          (h1 @ [ExpectText firstResult (animalPattern a) (Some 5000),
                 Log (''Animal "'' @ a @ ''" found.'')], Inr ())\<close>
  using assms(1) check_found [OF assms(2)]
  by (simp add: createAnimal_def andThen_def thenDo_def consoleLog_def emit_def
      animalPattern_def)

lemma issues_extends: "issues P n m \<Longrightarrow> \<exists>t. fst (m b h) = h @ t \<and> length (filter P t) \<le> n"
  unfolding issues_def by blast

lemma issues_prefix: "issues P n m \<Longrightarrow> \<exists>t. fst (m b h) = h @ t"
  unfolding issues_def by blast

lemma save_fillAge: "issues isSaveClick 0 (fillAge age)"
  unfolding fillAge_def by (auto intro!: never_rules split: option.splits)

lemma save_fillTags: "issues isSaveClick 0 (fillTags tags)"
  unfolding fillTags_def by (auto intro!: never_rules split: option.splits)

lemma save_fillDetails: "issues isSaveClick 0 (fillDetails age tags)"
  unfolding fillDetails_def
  by (auto intro!: never_rules never_useSearchInput save_fillAge save_fillTags)

lemma save_searchOwner: "issues isSaveClick 0 (searchOwner ow)"
  unfolding searchOwner_def by (auto intro!: never_rules)

lemma save_chooseOwner: "issues isSaveClick 0 (chooseOwner ow)"
  unfolding chooseOwner_def by (auto intro!: never_rules simp: matchingItem_def firstResult_def)

lemma save_createAnimal_verify: "issues isSaveClick 0 (createAnimal_verify a)"
  unfolding createAnimal_verify_def by (auto intro!: never_rules)

lemma save_createAnimalWithOwner_verify: "issues isSaveClick 0 (createAnimalWithOwner_verify a)"
  unfolding createAnimalWithOwner_verify_def by (auto intro!: never_rules)


lemma save_createAnimal_fill: "issues isSaveClick (Suc 0) (createAnimal_fill a ow age tags)"
proof -
  have "issues isSaveClick (Suc 0)
          (steps ([act (Fill nameField a), searchOwner ow, chooseOwner ow, fillDetails age tags]
                  @ act (Click (TestId ''Save'') False) # [waitForTimeout 3000]))"
    by (intro once_steps once_act never_steps)
       (auto intro!: never_rules save_searchOwner save_chooseOwner save_fillDetails)
  then show ?thesis
    unfolding createAnimal_fill_def by simp
qed

lemma save_createAnimal_create:
  "issues isSaveClick (Suc 0)
     (steps [consoleLog s, createAnimal_fill a ow age tags, createAnimal_verify a])"
proof -
  have "issues isSaveClick (Suc 0)
          (steps ([consoleLog s] @ createAnimal_fill a ow age tags # [createAnimal_verify a]))"
    by (intro once_steps save_createAnimal_fill never_steps)
       (auto intro!: never_rules save_createAnimal_verify)
  then show ?thesis by simp
qed


lemma save_createAnimalWithOwner_fill:
  "issues isSaveClick (Suc 0) (createAnimalWithOwner_fill a age tags)"
proof -
  have "issues isSaveClick (Suc 0)
          (steps ([consoleLog s1, act (Fill nameField a), waitForTimeout 1000, fillDetails age tags,
                   waitForTimeout 2000, consoleLog s2]
                  @ act (Click (Nth (TestId ''Save'') 1) False) # [waitForTimeout 3000]))" for s1 s2
    by (intro once_steps once_act never_steps)
       (auto intro!: never_rules save_fillDetails)
  then show ?thesis
    unfolding createAnimalWithOwner_fill_def by simp
qed

lemmas prog_defs = succeed_def throw_def act_def emit_def waitForTimeout_def consoleLog_def
  thenDo_def andThen_def attempt_def textContent_def isVisible_def allTextContents_def
  catchNull_def catchFalse_def truthy_def newRegExp_def

lemmas helper_defs = searchInSidebar_def searchResultAppears_def useSearchInput_def
  navigateToTab_def navigateToAnimalsTab_def navigateToContactsTab_def

lemmas page_defs = stubPage_def toasts_def allOk_def noResult_def resultAfterSave_def
  listing_def noHeading_def failingGoto_def timeoutError_def literalEngine_def
  literalSource_def syntaxCharacters_def

lemma createContact_search_trace:
  "createContact_search cn b h = (h1, Inr ()) \<Longrightarrow> h1 = h @ contactSearchTrace cn"
  by (auto simp: createContact_search_def navigateToContactsTab_def navigateToTab_def run_simps
    contactSearchTrace_def dest!: searchInSidebar_Inr)

lemma createAnimal_search_trace:
  "createAnimal_search a b h = (h1, Inr ()) \<Longrightarrow> h1 = h @ animalSearchTrace a"
  by (auto simp: createAnimal_search_def navigateToAnimalsTab_def navigateToTab_def run_simps
    animalSearchTrace_def dest!: searchInSidebar_Inr)

lemma saveClicks_append: "saveClicks (xs @ ys) = saveClicks xs + saveClicks ys"
  by (simp add: saveClicks_def)




lemmas animal_defs = createAnimal_def createAnimal_search_def createAnimal_fill_def
  createAnimal_verify_def createAnimalWithOwner_def createAnimalWithOwner_fill_def
  createAnimalWithOwner_verify_def searchOwner_def chooseOwner_def fillAge_def fillTags_def
  fillDetails_def animalPattern_def animalSource_def animalSearchTrace_def ownerSearchTrace_def chooseTrace_def
  ageTrace_def tagsTrace_def detailsTrace_def animalFillTrace_def animalWithOwnerFillTrace_def

lemmas locator_defs = firstResult_def sidebarSearchInput_def resultList_def nameField_def
  errorToast_def successToast_def matchingItem_def

lemma steps_Cons_run:
  "steps (m # ms) b h =
     (case m b h of (hm, Inl e) \<Rightarrow> (hm, Inl e) | (hm, Inr u) \<Rightarrow> steps ms b hm)"
  by (simp add: andThen_def thenDo_def)

lemma steps_Nil_run: "steps [] b h = (h, Inr ())"
  by (simp add: succeed_def)

lemma andThen_run:
  "andThen m n b h = (case m b h of (hm, Inl e) \<Rightarrow> (hm, Inl e) | (hm, Inr u) \<Rightarrow> n b hm)"
  by (simp add: andThen_def thenDo_def)

subsection \<open>The checkboxes of the contact form\<close>

lemma checkboxClicked_checkbox: "checkboxClicked (Click (checkbox t) f) = Some t"
  by (cases t) (simp_all add: checkboxClicked_def checkbox_def allTypes_def)

lemma checkboxClicks_append: "checkboxClicks (xs @ ys) = checkboxClicks xs @ checkboxClicks ys"
  by (induction xs) (simp_all split: option.splits)

lemma checkboxClicks_map: "checkboxClicks (map (\<lambda>t. Click (checkbox t) f) ts) = ts"
  by (induction ts) (simp_all add: checkboxClicked_checkbox)

lemma checkboxClicks_contactSearchTrace: "checkboxClicks (contactSearchTrace cn) = []"
  by (simp add: contactSearchTrace_def checkboxClicked_def checkbox_def allTypes_def)

lemma checkboxClicks_probeTrace: "checkboxClicks (probeTrace b src) = []"
  by (simp add: probeTrace_def checkboxClicked_def split: option.splits)

lemma checkboxClicks_contactFillTrace:
  "checkboxClicks (contactFillTrace cn ct) = Customer # contactTypeList ct"
  by (simp add: contactFillTrace_def checkboxClicks_append checkboxClicks_map
      checkboxClicked_checkbox)
     (simp add: checkboxClicked_def checkbox_def allTypes_def)

lemma toggle_checkbox:
  "toggle S (Click (checkbox t) f) = (if t \<in> S then S - {t} else insert t S)"
  by (simp add: toggle_def checkboxClicked_checkbox)

lemma checkedAfter_checkboxClicks:
  "checkedAfter as S = foldl (\<lambda>S t. if t \<in> S then S - {t} else insert t S) S (checkboxClicks as)"
  unfolding checkedAfter_def
  by (induction as arbitrary: S) (simp_all add: toggle_def split: option.splits)

lemma toggle_distinct:
  "distinct ts \<Longrightarrow> set ts \<inter> S = {} \<Longrightarrow>
   foldl (\<lambda>S t. if t \<in> S then S - {t} else insert t S) S ts = S \<union> set ts"
  by (induction ts arbitrary: S) auto

lemma steps_append_Inr_iff:
  "steps (ms @ ns) b h = (h', Inr u) \<longleftrightarrow>
     (\<exists>hm. steps ms b h = (hm, Inr ()) \<and> steps ns b hm = (h', Inr u))"
  by (simp add: steps_append andThen_Inr_iff)

lemma steps_map_act_Inr:
  "steps (map (\<lambda>t. act (f t)) ts) b h = (hm, Inr u) \<Longrightarrow> hm = h @ map f ts"
proof (induction ts arbitrary: h)
  case Nil
  then show ?case by (simp add: succeed_iff)
next
  case (Cons t ts)
  from Cons.prems have "steps (map (\<lambda>t. act (f t)) ts) b (h @ [f t]) = (hm, Inr u)"
    by (auto simp: andThen_Inr_iff act_Inr_iff)
  from Cons.IH [OF this] show ?case by simp
qed

lemma createContact_fill_trace:
  assumes "createContact_fill cn ct b h = (h', Inr ())"
  shows "h' = h @ contactFillTrace cn ct"
  using assms unfolding createContact_fill_def contactFillTrace_def
  by (simp only: steps_append_Inr_iff)
     (auto simp: run_simps useSearchInput_def dest!: steps_map_act_Inr)

lemma createContact_not_found:
  assumes "createContact_search cn b h = (hs, Inr ())"
    and "\<not> resolves b hs (contactSource cn)"
  shows \<open>createContact cn ct b h =
          createContact_fill cn ct b
            (hs @ probeTrace b (contactSource cn)
             @ [Log (''Contact "'' @ fullName cn @ ''" not found. Creating...'')])\<close>
  using assms(1) check_not_found [OF assms(2)]
  by (auto simp: createContact_def andThen_def thenDo_def consoleLog_def emit_def)

lemma createContact_created_trace:
  assumes "createContact_search cn b h = (hs, Inr ())"
    and "\<not> resolves b hs (contactSource cn)"
    and "createContact cn ct b h = (h', Inr ())"
  shows \<open>h' = h @ contactSearchTrace cn @ probeTrace b (contactSource cn)
             @ Log (''Contact "'' @ fullName cn @ ''" not found. Creating...'')
             # contactFillTrace cn ct\<close>
proof -
  define H where \<open>H = hs @ probeTrace b (contactSource cn)
                   @ [Log (''Contact "'' @ fullName cn @ ''" not found. Creating...'')]\<close>
  from assms(1) have hs: "hs = h @ contactSearchTrace cn"
    by (rule createContact_search_trace)
  from assms(3) have "createContact_fill cn ct b H = (h', Inr ())"
    unfolding H_def createContact_not_found [OF assms(1,2)] .
  then have "h' = H @ contactFillTrace cn ct"
    by (rule createContact_fill_trace)
  then show ?thesis
    by (simp add: H_def hs)
qed

lemma checkboxClicks_created:
  \<open>checkboxClicks (contactSearchTrace cn @ probeTrace b (contactSource cn)
                   @ Log (''Contact "'' @ fullName cn @ ''" not found. Creating...'')
                   # contactFillTrace cn ct) = Customer # contactTypeList ct\<close>
  by (simp add: checkboxClicks_append checkboxClicks_contactSearchTrace
      checkboxClicks_probeTrace checkboxClicks_contactFillTrace checkboxClicked_def)

lemma probeTrace_ok:
  "syntaxError b src = None \<Longrightarrow> probeTrace b src = [ExpectText firstResult (Rx src) (Some 5000)]"
  by (simp add: probeTrace_def)

text \<open>
  C5, amended. When \<open>createContact\<close> does not find the contact (the first result does not
  match, or the regular expression of the name cannot be constructed, in which case no
  probe is sent) and returns after creating it, the first checkbox it clicks is Customer,
  and then it clicks the checkbox of each requested type once, in the order of the list.
  If the form opens with exactly Customer checked, each click toggles its checkbox and no
  type is listed twice, exactly the requested types are checked at the end.
\<close>

theorem contact_type_override:
  \<open>createContact_search cn b h = (hs, Inr ()) \<and>
   \<not> resolves b hs (contactSource cn) \<and>
   createContact cn ct b h = (h', Inr ()) \<longrightarrow>
     trace (createContact cn ct) b h =
       contactSearchTrace cn @ probeTrace b (contactSource cn)
       @ Log (''Contact "'' @ fullName cn @ ''" not found. Creating...'')
       # contactFillTrace cn ct \<and>
     (syntaxError b (contactSource cn) = None \<longrightarrow>
        trace (createContact cn ct) b h = contactCreatedTrace cn ct) \<and>
     checkboxClicks (trace (createContact cn ct) b h) = Customer # contactTypeList ct \<and>
     (distinct (contactTypeList ct) \<longrightarrow>
        checkedAfter (trace (createContact cn ct) b h) {Customer} = set (contactTypeList ct))\<close>
proof (intro impI, elim conjE)
  let ?t = \<open>contactSearchTrace cn @ probeTrace b (contactSource cn)
            @ Log (''Contact "'' @ fullName cn @ ''" not found. Creating...'')
            # contactFillTrace cn ct\<close>
  assume run: "createContact_search cn b h = (hs, Inr ())"
    "\<not> resolves b hs (contactSource cn)"
    "createContact cn ct b h = (h', Inr ())"
  then have t: "trace (createContact cn ct) b h = ?t"
    using createContact_created_trace [OF run] by (simp add: trace_def)
  have c: "syntaxError b (contactSource cn) = None \<longrightarrow> ?t = contactCreatedTrace cn ct"
    by (simp add: probeTrace_ok contactCreatedTrace_def contactPattern_def)
  have "distinct (contactTypeList ct) \<longrightarrow> checkedAfter ?t {Customer} = set (contactTypeList ct)"
    using toggle_distinct [of "contactTypeList ct" "{}"]
    by (simp only: checkedAfter_checkboxClicks checkboxClicks_created) simp
  with t c show \<open>trace (createContact cn ct) b h = ?t \<and>
     (syntaxError b (contactSource cn) = None \<longrightarrow>
        trace (createContact cn ct) b h = contactCreatedTrace cn ct) \<and>
     checkboxClicks (trace (createContact cn ct) b h) = Customer # contactTypeList ct \<and>
     (distinct (contactTypeList ct) \<longrightarrow>
        checkedAfter (trace (createContact cn ct) b h) {Customer} = set (contactTypeList ct))\<close>
    by (simp only: checkboxClicks_created)
qed

lemma steps_map_act_ok:
  assumes "\<And>h t. perform b h (f t) = None"
  shows "steps (map (\<lambda>t. act (f t)) ts) b h = (h @ map f ts, Inr ())"
proof (induction ts arbitrary: h)
  case Nil
  then show ?case by (simp add: succeed_def)
next
  case (Cons t ts)
  then show ?case by (simp add: andThen_def thenDo_def act_def assms)
qed

lemma createContact_fill_ok:
  assumes ok: "\<And>h a. (\<And>p t. a \<noteq> ExpectText firstResult p t) \<Longrightarrow> perform b h a = None"
    and valid: "syntaxError b (lastName cn @ '', '' @ firstName cn) = None"
  shows "createContact_fill cn ct b h = (h @ contactFillTrace cn ct, Inr ())"
proof -
  have m: "steps (map (\<lambda>t. act (Click (checkbox t) False)) ts) b h =
             (h @ map (\<lambda>t. Click (checkbox t) False) ts, Inr ())" for ts h
    by (rule steps_map_act_ok) (simp add: ok)
  show ?thesis
    using valid
    unfolding createContact_fill_def contactFillTrace_def steps_append
    by (simp add: m andThen_run steps_Cons_run steps_Nil_run ok act_def useSearchInput_def
        consoleLog_def emit_def firstResult_def thenDo_def newRegExp_def
        del: steps.simps)
qed

lemma createContact_search_ok:
  assumes ok: "\<And>h a. (\<And>p t. a \<noteq> ExpectText firstResult p t) \<Longrightarrow> perform b h a = None"
  shows "createContact_search cn b h = (h @ contactSearchTrace cn, Inr ())"
  by (simp add: createContact_search_def contactSearchTrace_def navigateToContactsTab_def
      navigateToTab_def searchInSidebar_def steps_Cons_run steps_Nil_run act_def ok
      firstResult_def del: steps.simps)

lemma createContact_created_ok:
  assumes ok: "\<And>h a. (\<And>p t. a \<noteq> ExpectText firstResult p t) \<Longrightarrow> perform b h a = None"
    and valid: "syntaxError b (contactSource cn) = None"
      "syntaxError b (lastName cn @ '', '' @ firstName cn) = None"
    and p: "perform b (h @ contactSearchTrace cn)
              (ExpectText firstResult (contactPattern cn) (Some 5000)) = Some e"
  shows "createContact cn ct b h = (h @ contactCreatedTrace cn ct, Inr ())"
proof -
  from p have "\<not> resolves b (h @ contactSearchTrace cn) (contactSource cn)"
    by (simp add: resolves_def contactPattern_def)
  from createContact_not_found [OF createContact_search_ok [OF ok] this, of ct]
  show ?thesis
    by (simp add: createContact_fill_ok [OF ok valid(2)] contactCreatedTrace_def
        probeTrace_ok [OF valid(1)] contactPattern_def)
qed

lemma stub_quiet:
  "(\<And>p t. a \<noteq> ExpectText firstResult p t) \<Longrightarrow> perform (stubPage allOk toast v) h a = None"
  "(\<And>p t. a \<noteq> ExpectText firstResult p t) \<Longrightarrow> perform (stubPage noResult toast v) h a = None"
  "(\<And>p t. a \<noteq> ExpectText firstResult p t) \<Longrightarrow>
     perform (stubPage (resultAfterSave matches shown) toast v) h a = None"
  "(\<And>p t. a \<noteq> ExpectText firstResult p t) \<Longrightarrow>
     perform (stubPage (listing matches shown) toast v) h a = None"
  by (cases a; auto simp: stubPage_def allOk_def noResult_def resultAfterSave_def listing_def)+

lemma stub_engine:
  "literalSource src \<Longrightarrow> syntaxError (stubPage answer toast v) src = None"
  "\<not> literalSource src \<Longrightarrow>
     syntaxError (stubPage answer toast v) src = Some ''Invalid regular expression''"
  by (simp_all add: stubPage_def literalEngine_def)

lemma literalSource_contact:
  "literalSource (contactSource cn) \<longleftrightarrow> literalSource (lastName cn @ '', '' @ firstName cn)"
  by (simp add: contactSource_def literalSource_def syntaxCharacters_def)

lemma literalSource_animal: "literalSource (animalSource a) \<longleftrightarrow> literalSource a"
  by (simp add: animalSource_def literalSource_def syntaxCharacters_def)

lemma literal_john_smith: "literalSource (contactSource johnSmith)"
  by (simp add: literalSource_def syntaxCharacters_def johnSmith_def contactSource_def)

lemma literal_rex: "literalSource (animalSource ''Rex'')"
  by (simp add: literalSource_def syntaxCharacters_def animalSource_def)

lemma stub_noResult_probe:
  "perform (stubPage noResult toast v) h (ExpectText firstResult p t) = Some timeoutError"
  by (simp add: stubPage_def noResult_def)

lemma stub_probeTrace:
  "literalSource src \<Longrightarrow>
   probeTrace (stubPage answer toast v) src = [ExpectText firstResult (Rx src) (Some 5000)]"
  by (simp add: probeTrace_def stub_engine)

lemma freshPage_created:
  "createContact johnSmith ct freshPage [] = (contactCreatedTrace johnSmith ct, Inr ())"
proof -
  have q: "(\<And>p t. a \<noteq> ExpectText firstResult p t) \<Longrightarrow> perform freshPage h a = None" for a h
    unfolding freshPage_def by (rule stub_quiet)
  have v1: "syntaxError freshPage (contactSource johnSmith) = None"
    unfolding freshPage_def by (rule stub_engine) (rule literal_john_smith)
  have v2: "syntaxError freshPage (lastName johnSmith @ '', '' @ firstName johnSmith) = None"
    unfolding freshPage_def
    by (rule stub_engine) (rule literal_john_smith [unfolded literalSource_contact])
  have p: "perform freshPage ([] @ contactSearchTrace johnSmith)
             (ExpectText firstResult (contactPattern johnSmith) (Some 5000)) = Some timeoutError"
    unfolding freshPage_def by (rule stub_noResult_probe)
  from createContact_created_ok [of freshPage johnSmith "[]" timeoutError ct, OF q v1 v2 p]
  show ?thesis
    by simp
qed

lemma freshPage_search:
  "createContact_search johnSmith freshPage [] = (contactSearchTrace johnSmith, Inr ())"
  using createContact_search_ok [where b = freshPage and h = "[]" and cn = johnSmith]
  by (simp add: freshPage_def stub_quiet)

lemma freshPage_unresolved:
  "\<not> resolves freshPage (contactSearchTrace johnSmith) (contactSource johnSmith)"
  by (simp add: resolves_def freshPage_def stub_noResult_probe)

theorem contact_type_override_witness:
  "createContact_search johnSmith freshPage [] = (contactSearchTrace johnSmith, Inr ()) \<and>
   \<not> resolves freshPage (contactSearchTrace johnSmith) (contactSource johnSmith) \<and>
   syntaxError freshPage (contactSource johnSmith) = None \<and>
   createContact johnSmith (Many [Vet]) freshPage [] =
     (contactCreatedTrace johnSmith (Many [Vet]), Inr ()) \<and>
   trace (createContact johnSmith (Many [Vet])) freshPage [] =
     contactCreatedTrace johnSmith (Many [Vet]) \<and>
   distinct (contactTypeList (Many [Vet])) \<and>
   checkboxClicks (trace (createContact johnSmith (Many [Vet])) freshPage []) = [Customer, Vet] \<and>
   checkedAfter (trace (createContact johnSmith (Many [Vet])) freshPage []) {Customer} = {Vet}"
proof -
  have run: "createContact_search johnSmith freshPage [] = (contactSearchTrace johnSmith, Inr ()) \<and>
     \<not> resolves freshPage (contactSearchTrace johnSmith) (contactSource johnSmith) \<and>
     createContact johnSmith (Many [Vet]) freshPage [] =
       (contactCreatedTrace johnSmith (Many [Vet]), Inr ())"
    by (intro conjI) (rule freshPage_search freshPage_unresolved freshPage_created)+
  have v: "syntaxError freshPage (contactSource johnSmith) = None"
    using literal_john_smith by (simp add: freshPage_def stub_engine)
  note claim = contact_type_override
         [where cn = johnSmith and ct = "Many [Vet]" and b = freshPage and h = "[]"
            and hs = "contactSearchTrace johnSmith"
            and h' = "contactCreatedTrace johnSmith (Many [Vet])", THEN mp, OF run]
  have d: "distinct (contactTypeList (Many [Vet]))"
    by (simp add: contactTypeList_def)
  note t = claim [THEN conjunct2, THEN conjunct1, THEN mp, OF v]
  from claim [THEN conjunct2, THEN conjunct2, THEN conjunct1]
  have c: "checkboxClicks (trace (createContact johnSmith (Many [Vet])) freshPage []) = [Customer, Vet]"
    by (simp add: contactTypeList_def)
  from claim [THEN conjunct2, THEN conjunct2, THEN conjunct2, THEN mp, OF d]
  have s: "checkedAfter (trace (createContact johnSmith (Many [Vet])) freshPage []) {Customer} = {Vet}"
    by (simp add: contactTypeList_def)
  from freshPage_search freshPage_unresolved v freshPage_created [of "Many [Vet]"] t d c s
  show ?thesis
    by (intro conjI)
qed

lemma checkboxClicks_contactCreatedTrace:
  "checkboxClicks (contactCreatedTrace cn ct) = Customer # contactTypeList ct"
  by (simp add: contactCreatedTrace_def checkboxClicks_append checkboxClicks_contactSearchTrace
      checkboxClicks_contactFillTrace checkboxClicked_def)

theorem contact_type_override_counterexample:
  "snd (createContact johnSmith (Many [Vet, Vet]) freshPage []) = Inr () \<and>
   checkedAfter (trace (createContact johnSmith (Many [Vet, Vet])) freshPage []) {Customer} = {} \<and>
   set (contactTypeList (Many [Vet, Vet])) = {Vet}"
  by (simp add: freshPage_created trace_def checkedAfter_checkboxClicks
      checkboxClicks_contactCreatedTrace contactTypeList_def)

subsection \<open>The login\<close>

lemma showNat_1: "showNat (Suc 0) = ''1''" by (simp add: showNat.simps)
lemma showNat_2: "showNat 2 = ''2''" by (simp add: showNat.simps)

lemma loginLoop_exit:
  "maxRetries < n \<Longrightarrow>
   loginLoop email password department maxRetries n lastError b h =
     (h, Inl (''Login failed after '' @ showNat maxRetries @ '' attempts: ''
              @ (case lastError of None \<Rightarrow> ''undefined'' | Some msg \<Rightarrow> msg)))"
  by (simp add: loginLoop.simps throw_def)

lemma loginLoop_step:
  "n \<le> maxRetries \<Longrightarrow>
   loginLoop email password department maxRetries n lastError b h =
     (case ezyVetLogin email password department b
             (h @ [Log (''Login attempt '' @ showNat n @ ''/'' @ showNat maxRetries)]) of
        (h1, Inr _) \<Rightarrow> (h1 @ [Log ''Login successful''], Inr ())
      | (h1, Inl e) \<Rightarrow>
          loginLoop email password department maxRetries (n + 1) (Some e) b
            (h1 @ Log (''Login attempt '' @ showNat n @ '' failed: '' @ e)
                  # (if n < maxRetries then [Log ''Retrying login...'', WaitForTimeout 2000]
                     else [])))"
  by (subst loginLoop.simps)
     (simp add: andThen_run attempt_def consoleLog_def emit_def waitForTimeout_def
        steps_Cons_run steps_Nil_run succeed_def split: prod.splits sum.splits
        del: steps.simps)

lemma first_attempt:
  "loginLoop email password department 2 1 None b h =
     (case ezyVetLogin email password department b (h @ [Log ''Login attempt 1/2'']) of
        (h1, Inr _) \<Rightarrow> (h1 @ [Log ''Login successful''], Inr ())
      | (h1, Inl e1) \<Rightarrow>
          loginLoop email password department 2 2 (Some e1) b
            (h1 @ [Log (''Login attempt 1 failed: '' @ e1),
                   Log ''Retrying login...'',
                   WaitForTimeout 2000]))"
  using loginLoop_step [of 1 2 email password department None b h]
  by (simp add: showNat_1 showNat_2 numeral_2_eq_2 [symmetric] cong: prod.case_cong sum.case_cong)

lemma second_attempt:
  "loginLoop email password department 2 2 (Some e1) b h =
     (case ezyVetLogin email password department b (h @ [Log ''Login attempt 2/2'']) of
        (h2, Inr _) \<Rightarrow> (h2 @ [Log ''Login successful''], Inr ())
      | (h2, Inl e2) \<Rightarrow>
          (h2 @ [Log (''Login attempt 2 failed: '' @ e2)],
           Inl (''Login failed after 2 attempts: '' @ e2)))"
  using loginLoop_step [of 2 2 email password department "Some e1" b h]
  by (simp add: showNat_2 loginLoop_exit numeral_2_eq_2 [symmetric]
      cong: prod.case_cong sum.case_cong)

text \<open>
  C6. With the default of 2 attempts, \<open>ezyVetLoginWithRetry\<close> runs the login; if it
  throws, it waits 2000 ms and runs the same login once more; if that throws too, it
  throws \<open>Login failed after 2 attempts:\<close> followed by the message of the second error. A
  login that succeeds ends the call at once. Between the attempts there is nothing but
  the log lines and the wait.
\<close>

theorem login_retry_default:
  "ezyVetLoginWithRetry email password department None b h =
     (case ezyVetLogin email password department b (h @ [Log ''Login attempt 1/2'']) of
        (h1, Inr _) \<Rightarrow> (h1 @ [Log ''Login successful''], Inr ())
      | (h1, Inl e1) \<Rightarrow>
          (case ezyVetLogin email password department b
                  (h1 @ [Log (''Login attempt 1 failed: '' @ e1),
                         Log ''Retrying login...'',
                         WaitForTimeout 2000,
                         Log ''Login attempt 2/2'']) of
             (h2, Inr _) \<Rightarrow> (h2 @ [Log ''Login successful''], Inr ())
           | (h2, Inl e2) \<Rightarrow>
               (h2 @ [Log (''Login attempt 2 failed: '' @ e2)],
                Inl (''Login failed after 2 attempts: '' @ e2))))"
  unfolding ezyVetLoginWithRetry_def option.case first_attempt
  by (simp add: second_attempt cong: prod.case_cong sum.case_cong)


lemma ezyVetLogin_goto_fails:
  "perform b h (Goto ''/'') = Some e \<Longrightarrow>
   ezyVetLogin email password department b h = (h @ [Goto ''/''], Inl e)"
  by (simp add: ezyVetLogin_def goto_def steps_Cons_run act_def del: steps.simps)

lemma ezyVetLogin_ok:
  assumes "\<And>h a. (\<And>u. a \<noteq> Goto u) \<Longrightarrow> perform b h a = None"
    and "perform b h (Goto ''/'') = None"
  shows "\<exists>h'. ezyVetLogin email password department b h = (h', Inr ())"
  by (simp add: ezyVetLogin_def goto_def login_def selectLocation_def expectLoginSuccess_def
      steps_Cons_run steps_Nil_run act_def thenDo_def attempt_def succeed_def assms
      del: steps.simps)

lemma failingGoto_other:
  "(\<And>u. a \<noteq> Goto u) \<Longrightarrow> perform (stubPage (failingGoto k) toast v) h a = None"
  by (cases a) (auto simp: stubPage_def failingGoto_def)

theorem login_retry_default_witness:
  "ezyVetLoginWithRetry ''botai@test.com'' ''Sunshine1'' None None
     (stubPage (failingGoto 2) (toasts None None) True) [] =
     ([Log ''Login attempt 1/2'',
       Goto ''/'',
       Log ''Login attempt 1 failed: net::ERR_CONNECTION_REFUSED'',
       Log ''Retrying login...'',
       WaitForTimeout 2000,
       Log ''Login attempt 2/2'',
       Goto ''/'',
       Log ''Login attempt 2 failed: net::ERR_CONNECTION_REFUSED''],
      Inl ''Login failed after 2 attempts: net::ERR_CONNECTION_REFUSED'') \<and>
   snd (ezyVetLoginWithRetry ''botai@test.com'' ''Sunshine1'' None None
          (stubPage (failingGoto 1) (toasts None None) True) []) = Inr () \<and>
   snd (ezyVetLoginWithRetry ''botai@test.com'' ''Sunshine1'' None None
          (stubPage (failingGoto 0) (toasts None None) True) []) = Inr ()"
proof -
  let ?E = "''botai@test.com''" and ?P = "''Sunshine1''"
  let ?B = "\<lambda>k. stubPage (failingGoto k) (toasts None None) True"
  have g: "perform (?B k) h (Goto ''/'') =
             (if gotos h < k then Some ''net::ERR_CONNECTION_REFUSED'' else None)" for k h
    by (simp add: stubPage_def failingGoto_def)
  have two: "ezyVetLoginWithRetry ?E ?P None None (?B 2) [] =
     ([Log ''Login attempt 1/2'',
       Goto ''/'',
       Log ''Login attempt 1 failed: net::ERR_CONNECTION_REFUSED'',
       Log ''Retrying login...'',
       WaitForTimeout 2000,
       Log ''Login attempt 2/2'',
       Goto ''/'',
       Log ''Login attempt 2 failed: net::ERR_CONNECTION_REFUSED''],
      Inl ''Login failed after 2 attempts: net::ERR_CONNECTION_REFUSED'')"
    unfolding login_retry_default
    by (simp add: g ezyVetLogin_goto_fails)
  let ?H = "[Log ''Login attempt 1/2'',
             Goto ''/'',
             Log ''Login attempt 1 failed: net::ERR_CONNECTION_REFUSED'',
             Log ''Retrying login...'',
             WaitForTimeout 2000,
             Log ''Login attempt 2/2'']"
  obtain h2 where "ezyVetLogin ?E ?P None (?B 1) ?H = (h2, Inr ())"
    using ezyVetLogin_ok [of "?B 1" ?H ?E ?P None] by (auto simp: g failingGoto_other)
  then have one: "snd (ezyVetLoginWithRetry ?E ?P None None (?B 1) []) = Inr ()"
    unfolding login_retry_default
    by (simp add: g ezyVetLogin_goto_fails)
  obtain h1 where "ezyVetLogin ?E ?P None (?B 0) [Log ''Login attempt 1/2''] = (h1, Inr ())"
    using ezyVetLogin_ok [of "?B 0" "[Log ''Login attempt 1/2'']" ?E ?P None]
    by (auto simp: g failingGoto_other)
  then have none: "snd (ezyVetLoginWithRetry ?E ?P None None (?B 0) []) = Inr ()"
    unfolding login_retry_default
    by simp
  from two one none show ?thesis
    by (intro conjI)
qed

text \<open>
  C8. \<open>selectLocation\<close> waits up to 10 seconds for the heading
  \<open>Please select a location\<close>. If the wait fails, it returns normally and has
  done nothing else. If the heading appears, it waits up to 5 seconds for the element found
  by its text (not exact: a substring match) with the requested location name, or
  \<open>Master branch (Database)\<close> when none is given, and clicks it; whatever the wait for the
  network to be idle does, the call then returns normally. A failure of the wait for the
  element or of the click is thrown.
\<close>

theorem select_location_optional:
  "locationHeading = Text (Str ''Please select a location'') False \<and>
   locationName None = ''Master branch (Database)'' \<and>
   locationName (Some []) = ''Master branch (Database)'' \<and>
   (l \<noteq> [] \<longrightarrow> locationName (Some l) = l) \<and>
   (perform b h (WaitForVisible locationHeading 10000) = Some e \<longrightarrow>
      selectLocation location b h = (h @ [WaitForVisible locationHeading 10000], Inr ())) \<and>
   (perform b h (WaitForVisible locationHeading 10000) = None \<longrightarrow>
      selectLocation location b h =
        (case perform b (h @ [WaitForVisible locationHeading 10000])
                (WaitForVisible (Text (Str (locationName location)) False) 5000) of
           Some e1 \<Rightarrow>
             (h @ [WaitForVisible locationHeading 10000,
                   WaitForVisible (Text (Str (locationName location)) False) 5000], Inl e1)
         | None \<Rightarrow>
             (case perform b
                     (h @ [WaitForVisible locationHeading 10000,
                           WaitForVisible (Text (Str (locationName location)) False) 5000])
                     (Click (Text (Str (locationName location)) False) False) of
                Some e2 \<Rightarrow>
                  (h @ [WaitForVisible locationHeading 10000,
                        WaitForVisible (Text (Str (locationName location)) False) 5000,
                        Click (Text (Str (locationName location)) False) False], Inl e2)
              | None \<Rightarrow>
                  (h @ [WaitForVisible locationHeading 10000,
                        WaitForVisible (Text (Str (locationName location)) False) 5000,
                        Click (Text (Str (locationName location)) False) False,
                        WaitForLoadState ''networkidle'' 5000], Inr ()))))"
  by (simp add: locationHeading_def locationName_def selectLocation_def thenDo_def attempt_def
      act_def succeed_def steps_Cons_run steps_Nil_run split: option.splits del: steps.simps)

theorem select_location_optional_witness:
  "selectLocation None (stubPage noHeading (toasts None None) True) [] =
     ([WaitForVisible (Text (Str ''Please select a location'') False) 10000], Inr ()) \<and>
   selectLocation None okPage [] =
     ([WaitForVisible (Text (Str ''Please select a location'') False) 10000,
       WaitForVisible (Text (Str ''Master branch (Database)'') False) 5000,
       Click (Text (Str ''Master branch (Database)'') False) False,
       WaitForLoadState ''networkidle'' 5000], Inr ()) \<and>
   selectLocation (Some ''North clinic'') okPage [] =
     ([WaitForVisible (Text (Str ''Please select a location'') False) 10000,
       WaitForVisible (Text (Str ''North clinic'') False) 5000,
       Click (Text (Str ''North clinic'') False) False,
       WaitForLoadState ''networkidle'' 5000], Inr ())"
proof -
  have n: "perform (stubPage noHeading (toasts None None) True) []
             (WaitForVisible locationHeading 10000) = Some timeoutError"
    by (simp add: stubPage_def noHeading_def)
  have k: "perform okPage h a = None" for h a
    by (simp add: okPage_def stubPage_def allOk_def)
  note c1 = select_location_optional
    [where b = "stubPage noHeading (toasts None None) True" and h = "[]" and e = timeoutError
       and location = None and l = "''North clinic''"]
  note c2 = select_location_optional
    [where b = okPage and h = "[]" and location = None and l = "''North clinic''"]
  note c3 = select_location_optional
    [where b = okPage and h = "[]" and location = "Some ''North clinic''"
       and l = "''North clinic''"]
  have l: "locationName (Some ''North clinic'') = ''North clinic''"
    using c1 [THEN conjunct2, THEN conjunct2, THEN conjunct2, THEN conjunct1] by simp
  note h = c1 [THEN conjunct1] and d = c1 [THEN conjunct2, THEN conjunct1]
  from c1 [THEN conjunct2, THEN conjunct2, THEN conjunct2, THEN conjunct2, THEN conjunct1, THEN mp, OF n]
  have 1: "selectLocation None (stubPage noHeading (toasts None None) True) [] =
     ([WaitForVisible (Text (Str ''Please select a location'') False) 10000], Inr ())"
    by (simp add: h)
  from c2 [THEN conjunct2, THEN conjunct2, THEN conjunct2, THEN conjunct2, THEN conjunct2, THEN mp, OF k]
  have 2: "selectLocation None okPage [] =
     ([WaitForVisible (Text (Str ''Please select a location'') False) 10000,
       WaitForVisible (Text (Str ''Master branch (Database)'') False) 5000,
       Click (Text (Str ''Master branch (Database)'') False) False,
       WaitForLoadState ''networkidle'' 5000], Inr ())"
    by (simp add: h d k)
  from c3 [THEN conjunct2, THEN conjunct2, THEN conjunct2, THEN conjunct2, THEN conjunct2, THEN mp, OF k]
  have 3: "selectLocation (Some ''North clinic'') okPage [] =
     ([WaitForVisible (Text (Str ''Please select a location'') False) 10000,
       WaitForVisible (Text (Str ''North clinic'') False) 5000,
       Click (Text (Str ''North clinic'') False) False,
       WaitForLoadState ''networkidle'' 5000], Inr ())"
    by (simp add: h l k)
  from 1 2 3 show ?thesis
    by (intro conjI)
qed

subsection \<open>The patient form\<close>

lemma concat_map_act:
  "concat (map (\<lambda>x. [act (f x), act (g x)]) xs) = map act (concat (map (\<lambda>x. [f x, g x]) xs))"
  by (induction xs) simp_all

lemma steps_acts_Inr: "steps (map act as) b h = (h', Inr u) \<Longrightarrow> h' = h @ as"
  using steps_map_act_Inr [of "\<lambda>a. a" as b h h' u] by simp

lemma steps_acts_ok:
  assumes "\<And>h a. a \<in> set as \<Longrightarrow> perform b h a = None"
  shows "steps (map act as) b h = (h @ as, Inr ())"
  using assms
proof (induction as arbitrary: h)
  case Nil
  then show ?case by (simp add: succeed_def)
next
  case (Cons a as)
  then show ?case by (simp add: andThen_def thenDo_def act_def)
qed

lemma fillAge_trace: "fillAge age b h = (h', Inr ()) \<Longrightarrow> h' = h @ ageTrace age"
  by (cases age) (auto simp: fillAge_def ageTrace_def run_simps)

lemma fillTags_acts:
  "fillTags (Some ts) =
     steps (map act (Click (Sub (Text (Str ''General'') True)
                              (Css ''xpath=following-sibling::*[2]//ul[1]'')) False
                     # concat (map (\<lambda>tag. [KeyboardType tag, KeyboardPress ''Enter'']) ts)))"
  by (simp add: fillTags_def concat_map_act del: steps.simps)

lemma fillTags_trace: "fillTags tags b h = (h', Inr ()) \<Longrightarrow> h' = h @ tagsTrace tags"
proof (cases tags)
  case None
  then show "fillTags tags b h = (h', Inr ()) \<Longrightarrow> h' = h @ tagsTrace tags"
    by (simp add: fillTags_def tagsTrace_def succeed_iff)
next
  case (Some ts)
  then show "fillTags tags b h = (h', Inr ()) \<Longrightarrow> h' = h @ tagsTrace tags"
    unfolding Some fillTags_acts
    by (simp add: tagsTrace_def del: steps.simps map_eq_Cons_conv list.map) (rule steps_acts_Inr)
qed

lemma fillDetails_trace:
  "fillDetails age tags b h = (h', Inr ()) \<Longrightarrow> h' = h @ detailsTrace age tags"
  by (auto simp: fillDetails_def detailsTrace_def useSearchInput_def run_simps
      dest!: fillAge_trace fillTags_trace)

lemma createAnimalWithOwner_fill_trace:
  "createAnimalWithOwner_fill a age tags b h = (h', Inr ()) \<Longrightarrow>
   h' = h @ animalWithOwnerFillTrace a age tags"
  by (auto simp: createAnimalWithOwner_fill_def animalWithOwnerFillTrace_def run_simps
      dest!: fillDetails_trace)

lemma searchOwner_trace:
  "searchOwner ow b h = (h', Inr ()) \<Longrightarrow> \<exists>allItems. h' = h @ ownerSearchTrace ow allItems"
  by (auto simp: searchOwner_def ownerSearchTrace_def run_simps allTextContents_def)

lemma chooseOwner_trace:
  "chooseOwner ow b h = (h', Inr ()) \<Longrightarrow> \<exists>visible. h' = h @ chooseTrace ow visible"
  by (auto simp: chooseOwner_def chooseTrace_def run_simps catchFalse_def attempt_def
      isVisible_def split: if_splits prod.splits)

lemma createAnimal_fill_trace:
  "createAnimal_fill a ow age tags b h = (h', Inr ()) \<Longrightarrow>
   \<exists>allItems visible. h' = h @ animalFillTrace a ow age tags allItems visible"
  apply (auto simp: createAnimal_fill_def animalFillTrace_def run_simps
      dest!: fillDetails_trace searchOwner_trace chooseOwner_trace)
  apply blast
  done


lemma fillDetails_ok:
  assumes "\<And>h a. (\<And>p t. a \<noteq> ExpectText firstResult p t) \<Longrightarrow> perform b h a = None"
  shows "fillDetails age tags b h = (h @ detailsTrace age tags, Inr ())"
proof -
  have a: "fillAge age b h = (h @ ageTrace age, Inr ())" for h
    by (cases age)
       (simp_all add: fillAge_def ageTrace_def succeed_def steps_Cons_run steps_Nil_run act_def
          assms del: steps.simps)
  have t: "fillTags tags b h = (h @ tagsTrace tags, Inr ())" for h
  proof (cases tags)
    case None
    then show ?thesis by (simp add: fillTags_def tagsTrace_def succeed_def)
  next
    case (Some ts)
    show ?thesis
      unfolding Some fillTags_acts
      by (simp add: tagsTrace_def del: steps.simps list.map)
         (rule steps_acts_ok, auto simp: assms)
  qed
  show ?thesis
    by (simp add: fillDetails_def detailsTrace_def useSearchInput_def steps_Cons_run
        steps_Nil_run act_def assms a t del: steps.simps)
qed

lemma createAnimalWithOwner_fill_ok:
  assumes "\<And>h a. (\<And>p t. a \<noteq> ExpectText firstResult p t) \<Longrightarrow> perform b h a = None"
  shows "createAnimalWithOwner_fill a age tags b h =
           (h @ animalWithOwnerFillTrace a age tags, Inr ())"
  by (simp add: createAnimalWithOwner_fill_def animalWithOwnerFillTrace_def steps_Cons_run
      steps_Nil_run act_def consoleLog_def waitForTimeout_def emit_def assms
      fillDetails_ok [OF assms] del: steps.simps)

lemma createAnimal_fill_ok:
  assumes ok: "\<And>h a. (\<And>p t. a \<noteq> ExpectText firstResult p t) \<Longrightarrow> perform b h a = None"
    and items: "\<And>h l. readTexts b h l = Inr allItems"
    and vis: "\<And>h l t. readVisible b h l t = Inr visible"
  shows "createAnimal_fill a ow age tags b h =
           (h @ animalFillTrace a ow age tags allItems visible, Inr ())"
proof -
  have s: "searchOwner ow b h = (h @ ownerSearchTrace ow allItems, Inr ())" for h
    by (simp add: searchOwner_def ownerSearchTrace_def andThen_run thenDo_def steps_Cons_run
        steps_Nil_run act_def consoleLog_def waitForTimeout_def emit_def allTextContents_def
        ok items sidebarSearchInput_def firstResult_def del: steps.simps)
  have c: "chooseOwner ow b h = (h @ chooseTrace ow visible, Inr ())" for h
    by (simp add: chooseOwner_def chooseTrace_def andThen_run thenDo_def steps_Cons_run
        steps_Nil_run act_def consoleLog_def waitForTimeout_def emit_def catchFalse_def
        attempt_def isVisible_def succeed_def ok vis matchingItem_def firstResult_def
        del: steps.simps)
  have d: "fillDetails age tags b h = (h @ detailsTrace age tags, Inr ())" for h
    by (rule fillDetails_ok [OF ok])
  have n: "perform b h (Fill nameField a) = None" and k: "perform b h (Click (TestId ''Save'') False) = None" for h
    by (simp_all add: ok)
  show ?thesis
    by (simp add: createAnimal_fill_def animalFillTrace_def steps_Cons_run steps_Nil_run
        act_def waitForTimeout_def emit_def n k s c d del: steps.simps)
qed

lemma createAnimal_search_ok:
  assumes ok: "\<And>h a. (\<And>p t. a \<noteq> ExpectText firstResult p t) \<Longrightarrow> perform b h a = None"
  shows "createAnimal_search a b h = (h @ animalSearchTrace a, Inr ())"
  by (simp add: createAnimal_search_def animalSearchTrace_def navigateToAnimalsTab_def
      navigateToTab_def searchInSidebar_def steps_Cons_run steps_Nil_run act_def ok
      firstResult_def del: steps.simps)

lemma createAnimal_not_found:
  assumes "createAnimal_search a b h = (hs, Inr ())"
    and "\<not> resolves b hs (animalSource a)"
  shows \<open>createAnimal a ow age tags b h =
          andThen (createAnimal_fill a ow age tags) (createAnimal_verify a) b
            (hs @ probeTrace b (animalSource a)
             @ [Log (''Animal "'' @ a @ ''" not found. Creating...'')])\<close>
  using assms(1) check_not_found [OF assms(2)]
  by (auto simp: createAnimal_def andThen_run thenDo_def consoleLog_def emit_def
      steps_Cons_run steps_Nil_run split: prod.splits sum.splits simp del: steps.simps)

subsection \<open>After Save\<close>

lemmas verify_defs = thenDo_def catchNull_def attempt_def textContent_def succeed_def throw_def
  andThen_run steps_Cons_run steps_Nil_run consoleLog_def emit_def act_def truthy_def

lemma createAnimalWithOwner_verify_error:
  assumes "readText b h errorToast 2000 = Inr (Some t)" and "t \<noteq> []"
  shows "createAnimalWithOwner_verify a b h =
           (h @ [TextContent errorToast 2000, Log (''Error toast detected: '' @ t)],
            Inl (''Failed to create animal: '' @ t))"
  using assms by (simp add: createAnimalWithOwner_verify_def verify_defs del: steps.simps)

lemma createAnimal_verify_error:
  assumes "readText b h errorToast 2000 = Inr (Some t)" and "t \<noteq> []"
  shows "createAnimal_verify a b h =
           (h @ [TextContent errorToast 2000, Log (''Error toast detected: '' @ t)],
            Inl (''Failed to create animal: '' @ t))"
  using assms by (simp add: createAnimal_verify_def verify_defs del: steps.simps)

lemma createAnimalWithOwner_verify_first:
  "take (Suc (length h)) (fst (createAnimalWithOwner_verify a b h)) =
     h @ [TextContent errorToast 2000]"
  by (simp add: createAnimalWithOwner_verify_def verify_defs
      split: sum.splits option.splits del: steps.simps)

lemma createAnimal_verify_first:
  "take (Suc (length h)) (fst (createAnimal_verify a b h)) = h @ [TextContent errorToast 2000]"
  by (simp add: createAnimal_verify_def verify_defs newRegExp_def
      split: sum.splits option.splits del: steps.simps)

text \<open>No toast at all: \<open>createAnimalWithOwner\<close> logs the success without any other check.\<close>

lemma createAnimalWithOwner_verify_unknown:
  assumes "readText b h errorToast 2000 = Inl e1"
    and "readText b (h @ [TextContent errorToast 2000]) successToast 2000 = Inl e2"
  shows \<open>createAnimalWithOwner_verify a b h =
           (h @ [TextContent errorToast 2000,
                 TextContent successToast 2000,
                 Log ''No toast message detected'',
                 Log (''Animal "'' @ a @ ''" created successfully.'')], Inr ())\<close>
  using assms by (simp add: createAnimalWithOwner_verify_def verify_defs del: steps.simps)

text \<open>No toast at all: \<open>createAnimal\<close> checks that the sidebar shows the name.\<close>

lemma createAnimal_verify_unknown:
  assumes "readText b h errorToast 2000 = Inl e1"
    and "readText b (h @ [TextContent errorToast 2000]) successToast 2000 = Inl e2"
  shows \<open>createAnimal_verify a b h =
           (case syntaxError b a of
              Some msg \<Rightarrow>
                (h @ [TextContent errorToast 2000,
                      TextContent successToast 2000,
                      Log ''No toast message detected''], Inl msg)
            | None \<Rightarrow>
           (case perform b (h @ [TextContent errorToast 2000,
                                 TextContent successToast 2000,
                                 Log ''No toast message detected''])
                   (ExpectVisible (Sub (Css ''.sidebar'') (Text (Rx a) False)) (Some 5000)) of
              None \<Rightarrow>
                (h @ [TextContent errorToast 2000,
                      TextContent successToast 2000,
                      Log ''No toast message detected'',
                      ExpectVisible (Sub (Css ''.sidebar'') (Text (Rx a) False)) (Some 5000),
                      Log (''Animal "'' @ a @ ''" created successfully.'')], Inr ())
            | Some e \<Rightarrow>
                (h @ [TextContent errorToast 2000,
                      TextContent successToast 2000,
                      Log ''No toast message detected'',
                      ExpectVisible (Sub (Css ''.sidebar'') (Text (Rx a) False)) (Some 5000)],
                 Inl e)))\<close>
  using assms
  by (simp add: createAnimal_verify_def verify_defs newRegExp_def split: option.splits
      del: steps.simps)

lemma createAnimalWithOwner_run:
  "createAnimalWithOwner_fill a age tags b h = (hf, Inr ()) \<Longrightarrow>
   createAnimalWithOwner a f l age tags b h = createAnimalWithOwner_verify a b hf"
  by (simp add: createAnimalWithOwner_def andThen_run)

lemma createAnimal_run:
  assumes "createAnimal_search a b h = (hs, Inr ())"
    and "\<not> resolves b hs (animalSource a)"
    and \<open>createAnimal_fill a ow age tags b
            (hs @ probeTrace b (animalSource a)
             @ [Log (''Animal "'' @ a @ ''" not found. Creating...'')]) = (hf, Inr ())\<close>
  shows "createAnimal a ow age tags b h = createAnimal_verify a b hf"
  using assms(3) unfolding createAnimal_not_found [OF assms(1,2)]
  by (simp add: andThen_run)

text \<open>
  C2. On a page where every command of the form completes, no toast shows after Save
  and the sidebar never shows the new record, \<open>createAnimalWithOwner\<close> reads the two toasts,
  logs that none was detected, logs the success and returns normally: it makes no check
  that the record exists. On the same page \<open>createAnimal\<close> makes the check and throws.
\<close>

theorem unknown_outcome_without_recheck:
  \<open>createAnimalWithOwner ''TestPet1'' ''Test'' ''Owner1'' None None unsavedPage [] =
     (animalWithOwnerFillTrace ''TestPet1'' None None
      @ [TextContent errorToast 2000,
         TextContent successToast 2000,
         Log ''No toast message detected'',
         Log ''Animal "TestPet1" created successfully.''], Inr ()) \<and>
   snd (createAnimal ''TestPet1'' ''Owner1, Test'' None None unsavedPage []) = Inl timeoutError\<close>
proof -
  have 1: \<open>createAnimalWithOwner ''TestPet1'' ''Test'' ''Owner1'' None None unsavedPage [] =
     (animalWithOwnerFillTrace ''TestPet1'' None None
      @ [TextContent errorToast 2000,
         TextContent successToast 2000,
         Log ''No toast message detected'',
         Log ''Animal "TestPet1" created successfully.''], Inr ())\<close>
    by (simp add: animal_defs prog_defs helper_defs locator_defs unsavedPage_def stubPage_def
        sidebarEmpty_def toasts_def timeoutError_def)
  have 2: "snd (createAnimal ''TestPet1'' ''Owner1, Test'' None None unsavedPage []) =
             Inl timeoutError"
    by (simp add: animal_defs prog_defs helper_defs locator_defs unsavedPage_def stubPage_def
        sidebarEmpty_def toasts_def timeoutError_def literalEngine_def literalSource_def
        syntaxCharacters_def)
  from 1 2 show ?thesis
    by (intro conjI)
qed

text \<open>
  C3, amended. In \<open>createAnimal\<close> and in \<open>createAnimalWithOwner\<close>, once the form is filled
  and Save is clicked, the next command reads the error toast, before any read of the
  success toast. When that read returns a text that is not empty, the call logs it and
  throws \<open>Failed to create animal:\<close> followed by the text; the success toast is not read
  and the call does not return normally. In \<open>createAnimal\<close> the form is filled when the
  existence check has not found the patient, whether its probe failed or its regular
  expression could not be constructed.
\<close>

theorem error_toast_first:
  \<open>(createAnimalWithOwner_fill a age tags b h = (hf, Inr ()) \<longrightarrow>
      hf = h @ animalWithOwnerFillTrace a age tags \<and>
      take (Suc (length hf)) (fst (createAnimalWithOwner a f l age tags b h)) =
        hf @ [TextContent errorToast 2000]) \<and>
   (createAnimalWithOwner_fill a age tags b h = (hf, Inr ()) \<and>
    readText b hf errorToast 2000 = Inr (Some t) \<and> t \<noteq> [] \<longrightarrow>
      createAnimalWithOwner a f l age tags b h =
        (hf @ [TextContent errorToast 2000, Log (''Error toast detected: '' @ t)],
         Inl (''Failed to create animal: '' @ t))) \<and>
   (createAnimal_search a b h = (hs, Inr ()) \<and>
    \<not> resolves b hs (animalSource a) \<and>
    createAnimal_fill a ow age tags b
      (hs @ probeTrace b (animalSource a)
       @ [Log (''Animal "'' @ a @ ''" not found. Creating...'')]) = (hg, Inr ()) \<longrightarrow>
      take (Suc (length hg)) (fst (createAnimal a ow age tags b h)) =
        hg @ [TextContent errorToast 2000]) \<and>
   (createAnimal_search a b h = (hs, Inr ()) \<and>
    \<not> resolves b hs (animalSource a) \<and>
    createAnimal_fill a ow age tags b
      (hs @ probeTrace b (animalSource a)
       @ [Log (''Animal "'' @ a @ ''" not found. Creating...'')]) = (hg, Inr ()) \<and>
    readText b hg errorToast 2000 = Inr (Some t) \<and> t \<noteq> [] \<longrightarrow>
      createAnimal a ow age tags b h =
        (hg @ [TextContent errorToast 2000, Log (''Error toast detected: '' @ t)],
         Inl (''Failed to create animal: '' @ t)))\<close>
proof (intro conjI impI; (elim conjE)?)
  assume fill: "createAnimalWithOwner_fill a age tags b h = (hf, Inr ())"
  then show "hf = h @ animalWithOwnerFillTrace a age tags"
    by (rule createAnimalWithOwner_fill_trace)
  show "take (Suc (length hf)) (fst (createAnimalWithOwner a f l age tags b h)) =
        hf @ [TextContent errorToast 2000]"
    unfolding createAnimalWithOwner_run [OF fill]
    by (rule createAnimalWithOwner_verify_first)
next
  assume fill: "createAnimalWithOwner_fill a age tags b h = (hf, Inr ())"
    and toast: "readText b hf errorToast 2000 = Inr (Some t)" "t \<noteq> []"
  show "createAnimalWithOwner a f l age tags b h =
        (hf @ [TextContent errorToast 2000, Log (''Error toast detected: '' @ t)],
         Inl (''Failed to create animal: '' @ t))"
    unfolding createAnimalWithOwner_run [OF fill]
    by (rule createAnimalWithOwner_verify_error [OF toast])
next
  assume run: "createAnimal_search a b h = (hs, Inr ())"
    "\<not> resolves b hs (animalSource a)"
    \<open>createAnimal_fill a ow age tags b
      (hs @ probeTrace b (animalSource a)
       @ [Log (''Animal "'' @ a @ ''" not found. Creating...'')]) = (hg, Inr ())\<close>
  show "take (Suc (length hg)) (fst (createAnimal a ow age tags b h)) =
        hg @ [TextContent errorToast 2000]"
    unfolding createAnimal_run [OF run]
    by (rule createAnimal_verify_first)
next
  assume run: "createAnimal_search a b h = (hs, Inr ())"
    "\<not> resolves b hs (animalSource a)"
    \<open>createAnimal_fill a ow age tags b
      (hs @ probeTrace b (animalSource a)
       @ [Log (''Animal "'' @ a @ ''" not found. Creating...'')]) = (hg, Inr ())\<close>
    and toast: "readText b hg errorToast 2000 = Inr (Some t)" "t \<noteq> []"
  show "createAnimal a ow age tags b h =
        (hg @ [TextContent errorToast 2000, Log (''Error toast detected: '' @ t)],
         Inl (''Failed to create animal: '' @ t))"
    unfolding createAnimal_run [OF run]
    by (rule createAnimal_verify_error [OF toast])
qed


lemma stub_readText:
  "readText (stubPage answer (toasts e s) v) h errorToast t =
     (case e of None \<Rightarrow> Inl timeoutError | Some x \<Rightarrow> Inr (Some x))"
  "readText (stubPage answer (toasts e s) v) h successToast t =
     (case s of None \<Rightarrow> Inl timeoutError | Some x \<Rightarrow> Inr (Some x))"
  by (simp_all add: stubPage_def toasts_def errorToast_def successToast_def)

lemma stub_reads:
  "readTexts (stubPage answer toast v) h l = Inr []"
  "readVisible (stubPage answer toast v) h l t = Inr v"
  by (simp_all add: stubPage_def)

theorem error_toast_first_witness:
  \<open>createAnimalWithOwner_fill ''Rex'' None None rejectPage [] =
     (animalWithOwnerFillTrace ''Rex'' None None, Inr ()) \<and>
   take (Suc (length (animalWithOwnerFillTrace ''Rex'' None None)))
     (fst (createAnimalWithOwner ''Rex'' ''John'' ''Smith'' None None rejectPage [])) =
     animalWithOwnerFillTrace ''Rex'' None None @ [TextContent errorToast 2000] \<and>
   createAnimalWithOwner ''Rex'' ''John'' ''Smith'' None None rejectPage [] =
     (animalWithOwnerFillTrace ''Rex'' None None
      @ [TextContent errorToast 2000, Log ''Error toast detected: Name already exists''],
      Inl ''Failed to create animal: Name already exists'') \<and>
   take (Suc (length (animalSearchTrace ''Rex''
                      @ [ExpectText firstResult (animalPattern ''Rex'') (Some 5000),
                         Log ''Animal "Rex" not found. Creating...'']
                      @ animalFillTrace ''Rex'' ''Smith, John'' None None [] True)))
     (fst (createAnimal ''Rex'' ''Smith, John'' None None rejectPage [])) =
     (animalSearchTrace ''Rex''
      @ [ExpectText firstResult (animalPattern ''Rex'') (Some 5000),
         Log ''Animal "Rex" not found. Creating...'']
      @ animalFillTrace ''Rex'' ''Smith, John'' None None [] True)
     @ [TextContent errorToast 2000] \<and>
   createAnimal ''Rex'' ''Smith, John'' None None rejectPage [] =
     ((animalSearchTrace ''Rex''
       @ [ExpectText firstResult (animalPattern ''Rex'') (Some 5000),
          Log ''Animal "Rex" not found. Creating...'']
       @ animalFillTrace ''Rex'' ''Smith, John'' None None [] True)
      @ [TextContent errorToast 2000, Log ''Error toast detected: Name already exists''],
      Inl ''Failed to create animal: Name already exists'')\<close>
proof -
  let ?hs = "animalSearchTrace ''Rex''"
  let ?hn = \<open>?hs @ [ExpectText firstResult (animalPattern ''Rex'') (Some 5000),
                     Log (''Animal "'' @ ''Rex'' @ ''" not found. Creating...'')]\<close>
  let ?hg = "?hn @ animalFillTrace ''Rex'' ''Smith, John'' None None [] True"
  let ?hf = "animalWithOwnerFillTrace ''Rex'' None None"
  have quiet: "(\<And>p t. a \<noteq> ExpectText firstResult p t) \<Longrightarrow> perform rejectPage h a = None"
    for a h
    unfolding rejectPage_def by (rule stub_quiet)
  have f: "createAnimalWithOwner_fill ''Rex'' None None rejectPage [] = (?hf, Inr ())"
    using createAnimalWithOwner_fill_ok
      [where b = rejectPage and h = "[]" and a = "''Rex''" and age = None and tags = None] quiet by simp
  have t: "readText rejectPage hx errorToast 2000 = Inr (Some ''Name already exists'')" for hx
    by (simp add: rejectPage_def stub_readText)
  have s: "createAnimal_search ''Rex'' rejectPage [] = (?hs, Inr ())"
    using createAnimal_search_ok [where b = rejectPage and h = "[]" and a = "''Rex''"] quiet by simp
  have p: "\<not> resolves rejectPage ?hs (animalSource ''Rex'')"
    by (simp add: resolves_def rejectPage_def stub_noResult_probe)
  have pr: "probeTrace rejectPage (animalSource ''Rex'') =
              [ExpectText firstResult (animalPattern ''Rex'') (Some 5000)]"
    unfolding rejectPage_def animalPattern_def by (rule stub_probeTrace) (rule literal_rex)
  have g0: "createAnimal_fill ''Rex'' ''Smith, John'' None None rejectPage ?hn = (?hg, Inr ())"
    using createAnimal_fill_ok
      [where b = rejectPage and allItems = "[]" and visible = True and h = ?hn and a = "''Rex''"
         and ow = "''Smith, John''" and age = None and tags = None]
      quiet
    by (simp add: rejectPage_def stub_reads)
  have g: \<open>createAnimal_fill ''Rex'' ''Smith, John'' None None rejectPage
             (?hs @ probeTrace rejectPage (animalSource ''Rex'')
              @ [Log (''Animal "'' @ ''Rex'' @ ''" not found. Creating...'')]) = (?hg, Inr ())\<close>
    unfolding pr using g0 by simp
  have ne: "''Name already exists'' \<noteq> []"
    by simp
  note claim = error_toast_first
    [where a = "''Rex''" and age = None and tags = None and b = rejectPage and h = "[]"
       and hf = ?hf and f = "''John''" and l = "''Smith''" and t = "''Name already exists''"
       and hs = ?hs and ow = "''Smith, John''" and hg = ?hg]
  from claim [THEN conjunct1, THEN mp, OF f, THEN conjunct2]
  have 1: "take (Suc (length ?hf))
     (fst (createAnimalWithOwner ''Rex'' ''John'' ''Smith'' None None rejectPage [])) =
     ?hf @ [TextContent errorToast 2000]" .
  from claim [THEN conjunct2, THEN conjunct1, THEN mp, OF conjI [OF f conjI [OF t ne]]]
  have 2: "createAnimalWithOwner ''Rex'' ''John'' ''Smith'' None None rejectPage [] =
     (?hf @ [TextContent errorToast 2000, Log ''Error toast detected: Name already exists''],
      Inl ''Failed to create animal: Name already exists'')"
    by simp
  from claim [THEN conjunct2, THEN conjunct2, THEN conjunct1, THEN mp,
      OF conjI [OF s conjI [OF p g]]]
  have 3: "take (Suc (length ?hg))
     (fst (createAnimal ''Rex'' ''Smith, John'' None None rejectPage [])) =
     ?hg @ [TextContent errorToast 2000]" .
  from claim [THEN conjunct2, THEN conjunct2, THEN conjunct2, THEN mp,
      OF conjI [OF s conjI [OF p conjI [OF g conjI [OF t ne]]]]]
  have 4: "createAnimal ''Rex'' ''Smith, John'' None None rejectPage [] =
     (?hg @ [TextContent errorToast 2000, Log ''Error toast detected: Name already exists''],
      Inl ''Failed to create animal: Name already exists'')"
    by simp
  from f 1 2 3 4 show ?thesis
    by simp
qed

theorem error_toast_first_counterexample:
  \<open>readText blankErrorPage (animalWithOwnerFillTrace ''Rex'' None None) errorToast 2000 =
     Inr (Some []) \<and>
   createAnimalWithOwner ''Rex'' ''John'' ''Smith'' None None blankErrorPage [] =
     (animalWithOwnerFillTrace ''Rex'' None None
      @ [TextContent errorToast 2000,
         TextContent successToast 2000,
         Log ''Success toast: Saved'',
         Log ''Animal "Rex" created successfully.''], Inr ())\<close>
proof -
  have f: "createAnimalWithOwner_fill ''Rex'' None None blankErrorPage [] =
             (animalWithOwnerFillTrace ''Rex'' None None, Inr ())"
    using createAnimalWithOwner_fill_ok
      [where b = blankErrorPage and h = "[]" and a = "''Rex''" and age = None and tags = None]
    by (simp add: blankErrorPage_def stub_quiet)
  show ?thesis
    unfolding createAnimalWithOwner_run [OF f]
    by (simp add: createAnimalWithOwner_verify_def verify_defs blankErrorPage_def stub_readText
        del: steps.simps)
qed

subsection \<open>Creation from the page of a contact\<close>

lemma saveClicks_Nil: "saveClicks [] = 0"
  by (simp add: saveClicks_def)

lemma saveClicks_Cons: "saveClicks (a # as) = (if isSaveClick a then 1 else 0) + saveClicks as"
  by (simp add: saveClicks_def)

lemma saveClicks_tags:
  "saveClicks (concat (map (\<lambda>tag. [KeyboardType tag, KeyboardPress k]) ts)) = 0"
  by (induction ts) (simp_all add: saveClicks_Nil saveClicks_Cons)

lemma saveClicks_detailsTrace: "saveClicks (detailsTrace age tags) = 0"
  by (cases age; cases tags)
     (simp_all add: detailsTrace_def ageTrace_def tagsTrace_def saveClicks_append saveClicks_tags
        saveClicks_Nil saveClicks_Cons)

lemma saveClicks_animalWithOwnerFillTrace: "saveClicks (animalWithOwnerFillTrace a age tags) = 1"
  by (simp add: animalWithOwnerFillTrace_def saveClicks_append saveClicks_detailsTrace
      saveClicks_Nil saveClicks_Cons)

lemma search_fillAge: "issues isSearchAction 0 (fillAge age)"
  unfolding fillAge_def by (auto intro!: never_rules split: option.splits)

lemma search_fillTags: "issues isSearchAction 0 (fillTags tags)"
  unfolding fillTags_def by (auto intro!: never_rules split: option.splits)

lemma search_fillDetails: "issues isSearchAction 0 (fillDetails age tags)"
  unfolding fillDetails_def
  by (auto intro!: never_rules never_useSearchInput search_fillAge search_fillTags)

lemma search_createAnimalWithOwner: "issues isSearchAction 0 (createAnimalWithOwner a f l age tags)"
  unfolding createAnimalWithOwner_def createAnimalWithOwner_fill_def
    createAnimalWithOwner_verify_def
  by (auto intro!: never_rules search_fillDetails
      simp: nameField_def sidebarSearchInput_def)

lemma createAnimalWithOwner_begins:
  "take 2 (trace (createAnimalWithOwner a f l age tags) b h) =
     [Log (''Filling patient details for: '' @ a), Fill nameField a]"
proof -
  define R where "R = andThen
      (steps [waitForTimeout 1000, fillDetails age tags, waitForTimeout 2000,
              consoleLog ''Saving patient record...'',
              act (Click (Nth (TestId ''Save'') 1) False), waitForTimeout 3000])
      (createAnimalWithOwner_verify a)"
  have R: "\<exists>t. fst (R b H) = H @ t" for H
    unfolding R_def
    by (rule issues_prefix [where P = isSearchAction and n = 0])
       (auto intro!: never_rules search_fillDetails simp: createAnimalWithOwner_verify_def)
  have "createAnimalWithOwner a f l age tags =
          andThen (consoleLog (''Filling patient details for: '' @ a))
            (andThen (act (Fill nameField a)) R)"
    by (simp add: createAnimalWithOwner_def createAnimalWithOwner_fill_def R_def andThen_assoc)
  moreover obtain t where "fst (R b (h @ [Log (''Filling patient details for: '' @ a),
                                          Fill nameField a])) =
      (h @ [Log (''Filling patient details for: '' @ a), Fill nameField a]) @ t"
    using R by blast
  ultimately show ?thesis
    by (simp add: trace_def andThen_run consoleLog_def emit_def act_def split: option.splits)
qed

lemma createAnimalWithOwner_saves:
  assumes "createAnimalWithOwner a f l age tags b h = (h1, Inr ())"
  shows "\<exists>t. h1 = h @ t \<and> saveClicks t = 1"
proof -
  from assms obtain hf where fill: "createAnimalWithOwner_fill a age tags b h = (hf, Inr ())"
    and verify: "createAnimalWithOwner_verify a b hf = (h1, Inr ())"
    by (auto simp: createAnimalWithOwner_def andThen_Inr_iff)
  from fill have hf: "hf = h @ animalWithOwnerFillTrace a age tags"
    by (rule createAnimalWithOwner_fill_trace)
  from issues_extends [OF save_createAnimalWithOwner_verify, of a b hf] verify
  obtain t where "h1 = hf @ t" "saveClicks t = 0"
    by (auto simp: saveClicks_def)
  with hf show ?thesis
    by (simp add: saveClicks_append saveClicks_animalWithOwnerFillTrace)
qed

text \<open>
  C9. \<open>createAnimalWithOwner\<close> issues no command of a search: whatever the page answers, it
  begins by filling the name field, and it clicks Save as soon as the commands of the form
  have completed. A call that returns normally has clicked Save exactly once, so two calls
  in succession with the same name that both return normally have clicked Save twice.
\<close>

theorem contextual_creation_not_idempotent:
  "filter isSearchAction (trace (createAnimalWithOwner a f l age tags) b h) = [] \<and>
   take 2 (trace (createAnimalWithOwner a f l age tags) b h) =
     [Log (''Filling patient details for: '' @ a), Fill nameField a] \<and>
   (createAnimalWithOwner_fill a age tags b h = (hf, Inr ()) \<longrightarrow>
      hf = h @ animalWithOwnerFillTrace a age tags \<and>
      saveClicks (animalWithOwnerFillTrace a age tags) = 1) \<and>
   (createAnimalWithOwner a f l age tags b h = (h1, Inr ()) \<longrightarrow>
      saveClicks (trace (createAnimalWithOwner a f l age tags) b h) = 1) \<and>
   (createAnimalWithOwner a f l age tags b h = (h1, Inr ()) \<and>
    createAnimalWithOwner a f l age tags b h1 = (h2, Inr ()) \<longrightarrow>
      saveClicks (drop (length h) h2) = 2)"
proof (intro conjI impI; (elim conjE)?)
  from issues_extends [OF search_createAnimalWithOwner, of a f l age tags b h]
  show "filter isSearchAction (trace (createAnimalWithOwner a f l age tags) b h) = []"
    by (auto simp: trace_def)
  show "take 2 (trace (createAnimalWithOwner a f l age tags) b h) =
     [Log (''Filling patient details for: '' @ a), Fill nameField a]"
    by (rule createAnimalWithOwner_begins)
next
  assume "createAnimalWithOwner_fill a age tags b h = (hf, Inr ())"
  then show "hf = h @ animalWithOwnerFillTrace a age tags"
    by (rule createAnimalWithOwner_fill_trace)
  show "saveClicks (animalWithOwnerFillTrace a age tags) = 1"
    by (rule saveClicks_animalWithOwnerFillTrace)
next
  assume "createAnimalWithOwner a f l age tags b h = (h1, Inr ())"
  from createAnimalWithOwner_saves [OF this] this
  show "saveClicks (trace (createAnimalWithOwner a f l age tags) b h) = 1"
    by (auto simp: trace_def)
next
  assume 1: "createAnimalWithOwner a f l age tags b h = (h1, Inr ())"
    and 2: "createAnimalWithOwner a f l age tags b h1 = (h2, Inr ())"
  from createAnimalWithOwner_saves [OF 1] createAnimalWithOwner_saves [OF 2]
  show "saveClicks (drop (length h) h2) = 2"
    by (auto simp: saveClicks_append)
qed


lemma okPage_contextual:
  "createAnimalWithOwner ''Rex'' ''John'' ''Smith'' None None okPage h = (h @ contextualRun, Inr ())"
proof -
  have f: "createAnimalWithOwner_fill ''Rex'' None None okPage h =
             (h @ animalWithOwnerFillTrace ''Rex'' None None, Inr ())"
    using createAnimalWithOwner_fill_ok
      [where b = okPage and h = h and a = "''Rex''" and age = None and tags = None]
    by (simp add: okPage_def stub_quiet)
  show ?thesis
    unfolding createAnimalWithOwner_run [OF f]
    by (simp add: createAnimalWithOwner_verify_def verify_defs okPage_def stub_readText
        contextualRun_def del: steps.simps)
qed

theorem contextual_creation_not_idempotent_witness:
  "createAnimalWithOwner_fill ''Rex'' None None okPage [] =
     (animalWithOwnerFillTrace ''Rex'' None None, Inr ()) \<and>
   createAnimalWithOwner ''Rex'' ''John'' ''Smith'' None None okPage [] = (contextualRun, Inr ()) \<and>
   createAnimalWithOwner ''Rex'' ''John'' ''Smith'' None None okPage contextualRun =
     (contextualRun @ contextualRun, Inr ()) \<and>
   saveClicks (trace (createAnimalWithOwner ''Rex'' ''John'' ''Smith'' None None) okPage []) = 1 \<and>
   saveClicks (contextualRun @ contextualRun) = 2"
proof -
  have f: "createAnimalWithOwner_fill ''Rex'' None None okPage [] =
             (animalWithOwnerFillTrace ''Rex'' None None, Inr ())"
    using createAnimalWithOwner_fill_ok
      [where b = okPage and h = "[]" and a = "''Rex''" and age = None and tags = None]
    by (simp add: okPage_def stub_quiet)
  have 1: "createAnimalWithOwner ''Rex'' ''John'' ''Smith'' None None okPage [] =
             (contextualRun, Inr ())"
    using okPage_contextual [of "[]"] by simp
  have 2: "createAnimalWithOwner ''Rex'' ''John'' ''Smith'' None None okPage contextualRun =
             (contextualRun @ contextualRun, Inr ())"
    by (rule okPage_contextual)
  note claim = contextual_creation_not_idempotent
    [where a = "''Rex''" and f = "''John''" and l = "''Smith''" and age = None and tags = None
       and b = okPage and h = "[]" and hf = "animalWithOwnerFillTrace ''Rex'' None None"
       and ?h1.0 = contextualRun and ?h2.0 = "contextualRun @ contextualRun"]
  note rest = claim [THEN conjunct2, THEN conjunct2]
  note fill = rest [THEN conjunct1, THEN mp, OF f]
  from rest [THEN conjunct2, THEN conjunct1, THEN mp, OF 1]
  have 3: "saveClicks (trace (createAnimalWithOwner ''Rex'' ''John'' ''Smith'' None None) okPage [])
             = 1" .
  from rest [THEN conjunct2, THEN conjunct2, THEN mp, OF conjI [OF 1 2]]
  have 4: "saveClicks (contextualRun @ contextualRun) = 2"
    by simp
  from f 1 2 3 4 show ?thesis
    by (intro conjI)
qed

subsection \<open>The selection of the owner\<close>

lemma chooseOwner_fallback:
  assumes "readVisible b h (matchingItem ow) 2000 \<noteq> Inr True"
  shows "chooseOwner ow b h =
       (case perform b
               (h @ [IsVisible (matchingItem ow) 2000,
                     Log ''Exact name match not found, selecting first item in list''])
               (Click firstResult True) of
          None \<Rightarrow> (h @ chooseTrace ow False, Inr ())
        | Some e \<Rightarrow>
            (h @ [IsVisible (matchingItem ow) 2000,
                  Log ''Exact name match not found, selecting first item in list'',
                  Click firstResult True], Inl e))"
proof -
  have "catchFalse (isVisible (matchingItem ow) 2000) b h =
          (h @ [IsVisible (matchingItem ow) 2000], Inr False)"
    using assms
    by (cases "readVisible b h (matchingItem ow) 2000")
       (simp_all add: catchFalse_def thenDo_def attempt_def isVisible_def succeed_def)
  then show ?thesis
    by (simp add: chooseOwner_def chooseTrace_def thenDo_def andThen_run steps_Cons_run
        steps_Nil_run consoleLog_def emit_def act_def waitForTimeout_def
        split: option.splits del: steps.simps)
qed

lemma andThen_succeed_right: "andThen m (succeed ()) = m"
  by (intro ext) (simp add: andThen_def thenDo_def succeed_def split: prod.splits sum.splits)

lemma createAnimal_fill_split:
  "createAnimal_fill a ow age tags =
     andThen (steps [act (Fill nameField a), searchOwner ow])
       (andThen (chooseOwner ow)
          (steps [fillDetails age tags, act (Click (TestId ''Save'') False),
                  waitForTimeout 3000]))"
proof -
  have "createAnimal_fill a ow age tags =
          steps ([act (Fill nameField a), searchOwner ow]
                 @ [chooseOwner ow]
                 @ [fillDetails age tags, act (Click (TestId ''Save'') False),
                    waitForTimeout 3000])"
    by (simp add: createAnimal_fill_def)
  also have "\<dots> = andThen (steps [act (Fill nameField a), searchOwner ow])
       (andThen (steps [chooseOwner ow])
          (steps [fillDetails age tags, act (Click (TestId ''Save'') False),
                  waitForTimeout 3000]))"
    by (simp only: steps_append)
  finally show ?thesis
    by (simp add: andThen_succeed_right)
qed


lemma rest_trace:
  "steps [fillDetails age tags, act (Click (TestId ''Save'') False), waitForTimeout 3000] b h =
     (h', Inr ()) \<Longrightarrow>
   h' = h @ detailsTrace age tags @ [Click (TestId ''Save'') False, WaitForTimeout 3000]"
  by (auto simp: run_simps dest!: fillDetails_trace)

lemma owner_search_trace:
  "steps [act (Fill nameField a), searchOwner ow] b h = (ho, Inr ()) \<Longrightarrow>
   \<exists>allItems. ho = h @ Fill nameField a # ownerSearchTrace ow allItems"
  by (auto simp: run_simps dest!: searchOwner_trace)

text \<open>
  C10. In the owner selection of \<open>createAnimal\<close>, when the visibility probe of the first
  list item containing the owner's name does not answer true (it answers false, or it
  throws and the error is replaced by false), the call logs a warning and clicks the
  first item of the list, whatever it is; only a failure of that click is thrown. A call
  that then returns normally has gone on to fill the form and click Save after clicking
  the first item. The owner is selected when the existence check has not found the
  patient, whether its probe failed or its regular expression could not be constructed.
\<close>

theorem owner_fallback_first_item:
  \<open>firstResult = First (Css ''#filterlist li'') \<and>
   matchingItem ow = First (HasText (Css ''#filterlist li'') (Str ow)) \<and>
   (readVisible b h (matchingItem ow) 2000 \<noteq> Inr True \<longrightarrow>
      chooseOwner ow b h =
        (case perform b
                (h @ [IsVisible (matchingItem ow) 2000,
                      Log ''Exact name match not found, selecting first item in list''])
                (Click firstResult True) of
           None \<Rightarrow>
             (h @ [IsVisible (matchingItem ow) 2000,
                   Log ''Exact name match not found, selecting first item in list'',
                   Click firstResult True,
                   WaitForTimeout 2000,
                   Log ''Owner selected''], Inr ())
         | Some e \<Rightarrow>
             (h @ [IsVisible (matchingItem ow) 2000,
                   Log ''Exact name match not found, selecting first item in list'',
                   Click firstResult True], Inl e))) \<and>
   (createAnimal_search a b h = (hs, Inr ()) \<and>
    \<not> resolves b hs (animalSource a) \<and>
    steps [act (Fill nameField a), searchOwner ow] b
      (hs @ probeTrace b (animalSource a)
       @ [Log (''Animal "'' @ a @ ''" not found. Creating...'')]) = (ho, Inr ()) \<and>
    readVisible b ho (matchingItem ow) 2000 \<noteq> Inr True \<and>
    createAnimal a ow age tags b h = (h', Inr ()) \<longrightarrow>
      (\<exists>t. h' = ho @ chooseTrace ow False @ detailsTrace age tags
                 @ [Click (TestId ''Save'') False, WaitForTimeout 3000] @ t))\<close>
proof (intro conjI impI; (elim conjE)?)
  show "firstResult = First (Css ''#filterlist li'')"
    by (simp add: firstResult_def)
  show "matchingItem ow = First (HasText (Css ''#filterlist li'') (Str ow))"
    by (simp add: matchingItem_def)
next
  assume "readVisible b h (matchingItem ow) 2000 \<noteq> Inr True"
  from chooseOwner_fallback [OF this]
  show "chooseOwner ow b h =
        (case perform b
                (h @ [IsVisible (matchingItem ow) 2000,
                      Log ''Exact name match not found, selecting first item in list''])
                (Click firstResult True) of
           None \<Rightarrow>
             (h @ [IsVisible (matchingItem ow) 2000,
                   Log ''Exact name match not found, selecting first item in list'',
                   Click firstResult True,
                   WaitForTimeout 2000,
                   Log ''Owner selected''], Inr ())
         | Some e \<Rightarrow>
             (h @ [IsVisible (matchingItem ow) 2000,
                   Log ''Exact name match not found, selecting first item in list'',
                   Click firstResult True], Inl e))"
    by (simp add: chooseTrace_def cong: option.case_cong)
next
  let ?hn = \<open>hs @ probeTrace b (animalSource a)
             @ [Log (''Animal "'' @ a @ ''" not found. Creating...'')]\<close>
  assume search: "createAnimal_search a b h = (hs, Inr ())"
    "\<not> resolves b hs (animalSource a)"
    and owner: "steps [act (Fill nameField a), searchOwner ow] b ?hn = (ho, Inr ())"
    and hidden: "readVisible b ho (matchingItem ow) 2000 \<noteq> Inr True"
    and run: "createAnimal a ow age tags b h = (h', Inr ())"
  from run obtain hf where fill: "createAnimal_fill a ow age tags b ?hn = (hf, Inr ())"
    and verify: "createAnimal_verify a b hf = (h', Inr ())"
    unfolding createAnimal_not_found [OF search] by (auto simp: andThen_Inr_iff)
  from fill owner obtain hc where choose: "chooseOwner ow b ho = (hc, Inr ())"
    and rest: "steps [fillDetails age tags, act (Click (TestId ''Save'') False),
                      waitForTimeout 3000] b hc = (hf, Inr ())"
    unfolding createAnimal_fill_split by (auto simp: andThen_Inr_iff simp del: steps.simps)
  from choose have hc: "hc = ho @ chooseTrace ow False"
    unfolding chooseOwner_fallback [OF hidden] by (simp split: option.splits)
  from rest_trace [OF rest]
  have hf: "hf = hc @ detailsTrace age tags @ [Click (TestId ''Save'') False, WaitForTimeout 3000]" .
  from issues_prefix [OF save_createAnimal_verify, of a b hf] verify
  obtain t where "h' = hf @ t"
    by auto
  with hc hf show "\<exists>t. h' = ho @ chooseTrace ow False @ detailsTrace age tags
                 @ [Click (TestId ''Save'') False, WaitForTimeout 3000] @ t"
    by simp
qed


lemma createAnimal_created_ok:
  assumes ok: "\<And>h a. (\<And>p t. a \<noteq> ExpectText firstResult p t) \<Longrightarrow> perform b h a = None"
    and items: "\<And>h l. readTexts b h l = Inr allItems"
    and vis: "\<And>h l t. readVisible b h l t = Inr visible"
    and err: "\<And>h. readText b h errorToast 2000 = Inl e1"
    and suc: "\<And>h. readText b h successToast 2000 = Inr (Some ''Saved'')"
    and nf: "\<not> resolves b (h @ animalSearchTrace a) (animalSource a)"
  shows \<open>createAnimal a ow age tags b h =
           (h @ animalSearchTrace a @ probeTrace b (animalSource a)
            @ [Log (''Animal "'' @ a @ ''" not found. Creating...'')]
            @ animalFillTrace a ow age tags allItems visible
            @ [TextContent errorToast 2000,
               TextContent successToast 2000,
               Log ''Success toast: Saved'',
               Log (''Animal "'' @ a @ ''" created successfully.'')], Inr ())\<close>
proof -
  let ?hs = "h @ animalSearchTrace a"
  let ?hn = \<open>?hs @ probeTrace b (animalSource a)
             @ [Log (''Animal "'' @ a @ ''" not found. Creating...'')]\<close>
  let ?hf = "?hn @ animalFillTrace a ow age tags allItems visible"
  have s: "createAnimal_search a b h = (?hs, Inr ())"
    by (rule createAnimal_search_ok) (rule ok)
  have f: "createAnimal_fill a ow age tags b ?hn = (?hf, Inr ())"
    by (rule createAnimal_fill_ok [OF ok items vis])
  have \<open>createAnimal_verify a b ?hf =
          (?hf @ [TextContent errorToast 2000,
                  TextContent successToast 2000,
                  Log ''Success toast: Saved'',
                  Log (''Animal "'' @ a @ ''" created successfully.'')], Inr ())\<close>
    by (simp add: createAnimal_verify_def verify_defs err suc del: steps.simps)
  then show ?thesis
    unfolding createAnimal_run [OF s nf f]
    by simp
qed

lemma createAnimal_created:
  assumes "literalSource a"
  shows "createAnimal a ow age tags (stubPage noResult (toasts None (Some ''Saved'')) visible) h =
     (h @ animalCreatedTrace a ow age tags visible, Inr ())"
proof -
  let ?b = "stubPage noResult (toasts None (Some ''Saved'')) visible"
  from assms have lit: "literalSource (animalSource a)"
    by (simp add: literalSource_animal)
  have nf: "\<not> resolves ?b (h @ animalSearchTrace a) (animalSource a)"
    by (simp add: resolves_def stub_noResult_probe)
  have pr: "probeTrace ?b (animalSource a) = [ExpectText firstResult (animalPattern a) (Some 5000)]"
    unfolding animalPattern_def by (rule stub_probeTrace) (rule lit)
  from createAnimal_created_ok
    [where b = ?b and allItems = "[]" and visible = visible and ?e1.0 = timeoutError
       and h = h and a = a and ow = ow and age = age and tags = tags, OF _ _ _ _ _ nf]
  show ?thesis
    by (simp add: stub_quiet stub_reads stub_readText pr animalCreatedTrace_def)
qed

lemma literal_name_rex: "literalSource ''Rex''"
  by (simp add: literalSource_def syntaxCharacters_def)

theorem owner_fallback_first_item_witness:
  \<open>readVisible strangerPage [] (matchingItem ''Smith, John'') 2000 \<noteq> Inr True \<and>
   chooseOwner ''Smith, John'' strangerPage [] =
     ([IsVisible (matchingItem ''Smith, John'') 2000,
       Log ''Exact name match not found, selecting first item in list'',
       Click firstResult True,
       WaitForTimeout 2000,
       Log ''Owner selected''], Inr ()) \<and>
   createAnimal ''Rex'' ''Smith, John'' None None strangerPage [] =
     (animalCreatedTrace ''Rex'' ''Smith, John'' None None False, Inr ()) \<and>
   (\<exists>t. animalCreatedTrace ''Rex'' ''Smith, John'' None None False =
          (animalSearchTrace ''Rex''
           @ [ExpectText firstResult (animalPattern ''Rex'') (Some 5000),
              Log (''Animal "'' @ ''Rex'' @ ''" not found. Creating...''),
              Fill nameField ''Rex'']
           @ ownerSearchTrace ''Smith, John'' [])
          @ chooseTrace ''Smith, John'' False @ detailsTrace None None
          @ [Click (TestId ''Save'') False, WaitForTimeout 3000] @ t)\<close>
proof -
  let ?hs = "animalSearchTrace ''Rex''"
  let ?hn = \<open>?hs @ [ExpectText firstResult (animalPattern ''Rex'') (Some 5000),
                    Log (''Animal "'' @ ''Rex'' @ ''" not found. Creating...'')]\<close>
  let ?ho = \<open>(animalSearchTrace ''Rex''
           @ [ExpectText firstResult (animalPattern ''Rex'') (Some 5000),
              Log (''Animal "'' @ ''Rex'' @ ''" not found. Creating...''),
              Fill nameField ''Rex'']
           @ ownerSearchTrace ''Smith, John'' [])\<close>
  have pr: "probeTrace strangerPage (animalSource ''Rex'') =
              [ExpectText firstResult (animalPattern ''Rex'') (Some 5000)]"
    unfolding strangerPage_def animalPattern_def by (rule stub_probeTrace) (rule literal_rex)
  have quiet: "(\<And>p t. a \<noteq> ExpectText firstResult p t) \<Longrightarrow> perform strangerPage h a = None"
    for a h
    unfolding strangerPage_def by (rule stub_quiet)
  have v: "readVisible strangerPage hx (matchingItem ''Smith, John'') 2000 \<noteq> Inr True" for hx
    by (simp add: strangerPage_def stub_reads)
  have k: "perform strangerPage hx (Click firstResult True) = None" for hx
    by (simp add: quiet)
  have s: "createAnimal_search ''Rex'' strangerPage [] = (?hs, Inr ())"
    using createAnimal_search_ok [where b = strangerPage and h = "[]" and a = "''Rex''"] quiet
    by simp
  have p: "\<not> resolves strangerPage ?hs (animalSource ''Rex'')"
    by (simp add: resolves_def strangerPage_def stub_noResult_probe)
  have o0: "steps [act (Fill nameField ''Rex''), searchOwner ''Smith, John''] strangerPage ?hn =
             (?ho, Inr ())"
    by (simp add: searchOwner_def ownerSearchTrace_def andThen_run thenDo_def steps_Cons_run
        steps_Nil_run act_def consoleLog_def waitForTimeout_def emit_def allTextContents_def
        quiet strangerPage_def [THEN arg_cong, of readTexts] stub_reads
        sidebarSearchInput_def firstResult_def nameField_def del: steps.simps)
  have o: \<open>steps [act (Fill nameField ''Rex''), searchOwner ''Smith, John''] strangerPage
             (?hs @ probeTrace strangerPage (animalSource ''Rex'')
              @ [Log (''Animal "'' @ ''Rex'' @ ''" not found. Creating...'')]) = (?ho, Inr ())\<close>
    unfolding pr using o0 by simp
  have r: "createAnimal ''Rex'' ''Smith, John'' None None strangerPage [] =
             (animalCreatedTrace ''Rex'' ''Smith, John'' None None False, Inr ())"
    using createAnimal_created [OF literal_name_rex, of "''Smith, John''" None None False "[]"]
    by (simp add: strangerPage_def)
  note claim = owner_fallback_first_item
    [where ow = "''Smith, John''" and b = strangerPage and h = "[]" and a = "''Rex''" and hs = ?hs
       and ho = ?ho and age = None and tags = None
       and h' = "animalCreatedTrace ''Rex'' ''Smith, John'' None None False"]
  note rest = claim [THEN conjunct2, THEN conjunct2]
  from rest [THEN conjunct1, THEN mp, OF v]
  have 1: "chooseOwner ''Smith, John'' strangerPage [] =
     ([IsVisible (matchingItem ''Smith, John'') 2000,
       Log ''Exact name match not found, selecting first item in list'',
       Click firstResult True,
       WaitForTimeout 2000,
       Log ''Owner selected''], Inr ())"
    by (simp add: k)
  note 2 = rest [THEN conjunct2, THEN mp,
      OF conjI [OF s conjI [OF p conjI [OF o conjI [OF v r]]]]]
  from v [of "[]"] 1 r 2 show ?thesis
    by (intro conjI)
qed

subsection \<open>The dropdown fields\<close>

lemma selectResource_trace:
  "selectResource b h = (h', Inr ()) \<Longrightarrow> h' = h @ resourceTrace"
  by (auto simp: selectResource_def resourceTrace_def run_simps)

lemma fillsOf_append: "fillsOf (xs @ ys) = fillsOf xs @ fillsOf ys"
  by (induction xs rule: fillsOf.induct) simp_all

text \<open>
  C7, amended. The resource selection of the appointment test clicks the magnifier of the
  field, fills the field with \<open>Dr\<close> followed by a space, waits, and clicks the first
  dropdown item whose text matches \<open>Dr\<close> without regard to case. The owner selection of
  \<open>createAnimal\<close> clicks the icon of the owner dropdown, fills the sidebar search input with
  the owner's name as it was passed, with no space appended, presses Enter, waits, and
  then clicks the first list item containing the name, or the first item of the list.
\<close>

theorem dropdown_protocols:
  \<open>(selectResource b h = (h', Inr ()) \<longrightarrow>
      h' = h @ [Log ''Selecting People/Resources Used...'',
                WaitForTimeout 2000,
                Click (Sub (Sub resourceField
                              (Css ''xpath=ancestor::div[contains(@class, "newDropDown")]''))
                         (Css ''.icon-magnifying-glass'')) True,
                WaitForTimeout 1500,
                Fill resourceField (''Dr'' @ '' ''),
                WaitForTimeout 1500,
                Click (First (HasText (Css ''.dropDownList.dropdown .dropDownListItem'')
                                (RxI ''Dr''))) True,
                WaitForTimeout 1000,
                Log ''People/Resources Used field filled'']) \<and>
   (searchOwner ow b h = (ho, Inr ()) \<longrightarrow>
      (\<exists>allItems.
         ho = h @ [Log (''Searching for owner: '' @ ow),
                   Click (First (Css ''[id^="clientcontactDropdown"] .icon'')) True,
                   WaitForTimeout 1500,
                   Fill sidebarSearchInput ow,
                   Press sidebarSearchInput ''Enter'',
                   WaitForTimeout 1000,
                   AllTextContents (Css ''#filterlist li''),
                   Log (''Available contacts in filterlist: '' @ join '', '' allItems)]) \<and>
      fillsOf (trace (searchOwner ow) b h) = [(sidebarSearchInput, ow)]) \<and>
   (chooseOwner ow b ho = (hc, Inr ()) \<longrightarrow>
      hc = ho @ [IsVisible (matchingItem ow) 2000,
                 Click (matchingItem ow) True,
                 Log ''Owner selected by name match'',
                 WaitForTimeout 2000,
                 Log ''Owner selected''] \<or>
      hc = ho @ [IsVisible (matchingItem ow) 2000,
                 Log ''Exact name match not found, selecting first item in list'',
                 Click firstResult True,
                 WaitForTimeout 2000,
                 Log ''Owner selected''])\<close>
proof (intro conjI impI)
  assume "selectResource b h = (h', Inr ())"
  from selectResource_trace [OF this]
  show \<open>h' = h @ [Log ''Selecting People/Resources Used...'',
                WaitForTimeout 2000,
                Click (Sub (Sub resourceField
                              (Css ''xpath=ancestor::div[contains(@class, "newDropDown")]''))
                         (Css ''.icon-magnifying-glass'')) True,
                WaitForTimeout 1500,
                Fill resourceField (''Dr'' @ '' ''),
                WaitForTimeout 1500,
                Click (First (HasText (Css ''.dropDownList.dropdown .dropDownListItem'')
                                (RxI ''Dr''))) True,
                WaitForTimeout 1000,
                Log ''People/Resources Used field filled'']\<close>
    by (simp add: resourceTrace_def)
next
  assume run: "searchOwner ow b h = (ho, Inr ())"
  from searchOwner_trace [OF run] obtain allItems
    where ho: "ho = h @ ownerSearchTrace ow allItems"
    by blast
  then show \<open>\<exists>allItems.
         ho = h @ [Log (''Searching for owner: '' @ ow),
                   Click (First (Css ''[id^="clientcontactDropdown"] .icon'')) True,
                   WaitForTimeout 1500,
                   Fill sidebarSearchInput ow,
                   Press sidebarSearchInput ''Enter'',
                   WaitForTimeout 1000,
                   AllTextContents (Css ''#filterlist li''),
                   Log (''Available contacts in filterlist: '' @ join '', '' allItems)]\<close>
    by (auto simp: ownerSearchTrace_def)
  from run ho show "fillsOf (trace (searchOwner ow) b h) = [(sidebarSearchInput, ow)]"
    by (simp add: trace_def ownerSearchTrace_def)
next
  assume "chooseOwner ow b ho = (hc, Inr ())"
  from chooseOwner_trace [OF this] obtain visible where "hc = ho @ chooseTrace ow visible"
    by blast
  then show "hc = ho @ [IsVisible (matchingItem ow) 2000,
                 Click (matchingItem ow) True,
                 Log ''Owner selected by name match'',
                 WaitForTimeout 2000,
                 Log ''Owner selected''] \<or>
      hc = ho @ [IsVisible (matchingItem ow) 2000,
                 Log ''Exact name match not found, selecting first item in list'',
                 Click firstResult True,
                 WaitForTimeout 2000,
                 Log ''Owner selected'']"
    by (cases visible) (simp_all add: chooseTrace_def)
qed


theorem dropdown_protocols_witness:
  \<open>selectResource okPage [] = (resourceTrace, Inr ()) \<and>
   fillsOf resourceTrace = [(resourceField, ''Dr '')] \<and>
   searchOwner ''Smith, John'' okPage [] = (ownerSearchTrace ''Smith, John'' [], Inr ()) \<and>
   fillsOf (trace (searchOwner ''Smith, John'') okPage []) =
     [(sidebarSearchInput, ''Smith, John'')] \<and>
   chooseOwner ''Smith, John'' okPage (ownerSearchTrace ''Smith, John'' []) =
     (ownerSearchTrace ''Smith, John'' [] @ chooseTrace ''Smith, John'' True, Inr ())\<close>
proof -
  have k: "perform okPage h a = None" for h a
    by (simp add: okPage_def stubPage_def allOk_def)
  have 1: "selectResource okPage [] = (resourceTrace, Inr ())"
    by (simp add: selectResource_def resourceTrace_def steps_Cons_run steps_Nil_run act_def
        consoleLog_def waitForTimeout_def emit_def k del: steps.simps)
  have 2: "searchOwner ''Smith, John'' okPage [] = (ownerSearchTrace ''Smith, John'' [], Inr ())"
    by (simp add: searchOwner_def ownerSearchTrace_def andThen_run thenDo_def steps_Cons_run
        steps_Nil_run act_def consoleLog_def waitForTimeout_def emit_def allTextContents_def
        k okPage_def [THEN arg_cong, of readTexts] stub_reads del: steps.simps)
  have 3: "chooseOwner ''Smith, John'' okPage (ownerSearchTrace ''Smith, John'' []) =
     (ownerSearchTrace ''Smith, John'' [] @ chooseTrace ''Smith, John'' True, Inr ())"
    by (simp add: chooseOwner_def chooseTrace_def andThen_run thenDo_def steps_Cons_run
        steps_Nil_run act_def consoleLog_def waitForTimeout_def emit_def catchFalse_def
        attempt_def isVisible_def succeed_def k okPage_def [THEN arg_cong, of readVisible]
        stub_reads del: steps.simps)
  note claim = dropdown_protocols
    [where b = okPage and h = "[]" and h' = resourceTrace and ow = "''Smith, John''"
       and ho = "ownerSearchTrace ''Smith, John'' []"
       and hc = "ownerSearchTrace ''Smith, John'' [] @ chooseTrace ''Smith, John'' True"]
  from claim [THEN conjunct1, THEN mp, OF 1]
  have 4: "fillsOf resourceTrace = [(resourceField, ''Dr '')]"
    by (simp add: resourceTrace_def)
  from claim [THEN conjunct2, THEN conjunct1, THEN mp, OF 2, THEN conjunct2]
  have 5: "fillsOf (trace (searchOwner ''Smith, John'') okPage []) =
     [(sidebarSearchInput, ''Smith, John'')]" .
  note claim [THEN conjunct2, THEN conjunct2, THEN mp, OF 3]
  from 1 4 2 5 3 show ?thesis
    by (intro conjI)
qed

theorem dropdown_protocols_counterexample:
  "snd (createAnimal ''Rex'' ''Smith, John'' None None freshPage []) = Inr () \<and>
   fillsOf (trace (createAnimal ''Rex'' ''Smith, John'' None None) freshPage []) =
     [(sidebarSearchInput, ''Rex''), (nameField, ''Rex''), (sidebarSearchInput, ''Smith, John'')]"
proof -
  have r: "createAnimal ''Rex'' ''Smith, John'' None None freshPage [] =
             (animalCreatedTrace ''Rex'' ''Smith, John'' None None True, Inr ())"
    using createAnimal_created [OF literal_name_rex, of "''Smith, John''" None None True "[]"]
    by (simp add: freshPage_def)
  have "fillsOf (animalCreatedTrace ''Rex'' ''Smith, John'' None None True) =
     [(sidebarSearchInput, ''Rex''), (nameField, ''Rex''), (sidebarSearchInput, ''Smith, John'')]"
    by (simp add: animalCreatedTrace_def animalSearchTrace_def animalFillTrace_def
        ownerSearchTrace_def chooseTrace_def detailsTrace_def ageTrace_def tagsTrace_def
        fillsOf_append)
  with r show ?thesis
    by (simp add: trace_def)
qed

subsection \<open>The existence check and its pattern\<close>

lemma listing_ok:
  "(\<And>p t. a \<noteq> ExpectText firstResult p t) \<Longrightarrow> perform (listingPage matches shown) h a = None"
  by (cases a) (auto simp: listingPage_def stubPage_def listing_def)

lemma listing_probe:
  "perform (listingPage matches shown) h (ExpectText firstResult p t) =
     (if matches p shown then None else Some timeoutError)"
  by (simp add: listingPage_def stubPage_def listing_def)

lemma literalMatcher_substring: "literalMatcher substringMatcher"
  by (simp add: literalMatcher_def substringMatcher_def)

lemma createContact_probe:
  assumes "createContact_search cn b h = (hs, Inr ())"
  shows \<open>take (Suc (length hs)) (fst (createContact cn ct b h)) =
           hs @ (case syntaxError b (contactSource cn) of
                   None \<Rightarrow> [ExpectText firstResult (Rx (contactSource cn)) (Some 5000)]
                 | Some msg \<Rightarrow>
                     [Log (''Contact "'' @ fullName cn @ ''" not found. Creating...'')])\<close>
proof (cases "syntaxError b (contactSource cn)")
  case None
  let ?H = "hs @ [ExpectText firstResult (Rx (contactSource cn)) (Some 5000)]"
  have found: \<open>\<exists>t. fst (consoleLog (''Contact "'' @ fullName cn @ ''" found.'') b ?H) = ?H @ t\<close>
    by (rule issues_prefix [OF never_consoleLog [of isSaveClick]]) simp
  have create: \<open>\<exists>t. fst (andThen (consoleLog (''Contact "'' @ fullName cn
                         @ ''" not found. Creating...'')) (createContact_fill cn ct) b ?H) = ?H @ t\<close>
    by (rule issues_prefix [OF once_andThen_right [OF never_consoleLog save_createContact_fill]])
       simp
  define r :: "string + unit" where
    "r = (case perform b hs (ExpectText firstResult (Rx (contactSource cn)) (Some 5000)) of
            None \<Rightarrow> Inr () | Some e \<Rightarrow> Inl e)"
  have run: \<open>createContact cn ct b h =
      (case r of
         Inr _ \<Rightarrow> consoleLog (''Contact "'' @ fullName cn @ ''" found.'')
       | Inl e \<Rightarrow> andThen (consoleLog (''Contact "'' @ fullName cn @ ''" not found. Creating...''))
                   (createContact_fill cn ct)) b ?H\<close>
    unfolding r_def createContact_def
    by (simp only: andThen_run assms prod.case sum.case thenDo_def check_run probeTrace_def
        None option.case)
  obtain t where "fst (createContact cn ct b h) = ?H @ t"
    unfolding run using found create by (cases r) auto
  with None show ?thesis
    by simp
next
  case (Some msg)
  let ?H = \<open>hs @ [Log (''Contact "'' @ fullName cn @ ''" not found. Creating...'')]\<close>
  obtain t where "fst (createContact_fill cn ct b ?H) = ?H @ t"
    using issues_prefix [OF save_createContact_fill] by blast
  with assms Some show ?thesis
    by (simp add: createContact_def andThen_run thenDo_def check_run probeTrace_def
        consoleLog_def emit_def)
qed

lemma steps_consoleLog: "steps (consoleLog s # ms) b h = steps ms b (h @ [Log s])"
  by (simp add: steps_Cons_run consoleLog_def emit_def del: steps.simps)

lemma save_createAnimal_rest:
  "issues isSaveClick (Suc 0) (steps [createAnimal_fill a ow age tags, createAnimal_verify a])"
  unfolding steps.simps
  by (intro once_andThen_left save_createAnimal_fill never_andThen save_createAnimal_verify
      never_succeed)

lemma createAnimal_probe:
  assumes "createAnimal_search a b h = (hs, Inr ())"
  shows \<open>take (Suc (length hs)) (fst (createAnimal a ow age tags b h)) =
           hs @ (case syntaxError b (animalSource a) of
                   None \<Rightarrow> [ExpectText firstResult (Rx (animalSource a)) (Some 5000)]
                 | Some msg \<Rightarrow> [Log (''Animal "'' @ a @ ''" not found. Creating...'')])\<close>
proof (cases "syntaxError b (animalSource a)")
  case None
  let ?H = "hs @ [ExpectText firstResult (Rx (animalSource a)) (Some 5000)]"
  have found: \<open>\<exists>t. fst (consoleLog (''Animal "'' @ a @ ''" found.'') b ?H) = ?H @ t\<close>
    by (rule issues_prefix [OF never_consoleLog [of isSaveClick]]) simp
  have create: \<open>\<exists>t. fst (steps [consoleLog (''Animal "'' @ a @ ''" not found. Creating...''),
                                createAnimal_fill a ow age tags,
                                createAnimal_verify a] b ?H) = ?H @ t\<close>
    by (rule issues_prefix [OF save_createAnimal_create])
  define r :: "string + unit" where
    "r = (case perform b hs (ExpectText firstResult (Rx (animalSource a)) (Some 5000)) of
            None \<Rightarrow> Inr () | Some e \<Rightarrow> Inl e)"
  have run: \<open>createAnimal a ow age tags b h =
      (case r of
         Inr _ \<Rightarrow> consoleLog (''Animal "'' @ a @ ''" found.'')
       | Inl e \<Rightarrow> steps [consoleLog (''Animal "'' @ a @ ''" not found. Creating...''),
                         createAnimal_fill a ow age tags,
                         createAnimal_verify a]) b ?H\<close>
    unfolding r_def createAnimal_def
    by (simp only: andThen_run assms prod.case sum.case thenDo_def check_run probeTrace_def
        None option.case)
  obtain t where "fst (createAnimal a ow age tags b h) = ?H @ t"
    unfolding run using found create by (cases r) (auto simp del: steps.simps)
  with None show ?thesis
    by simp
next
  case (Some msg)
  let ?H = \<open>hs @ [Log (''Animal "'' @ a @ ''" not found. Creating...'')]\<close>
  have run: "createAnimal a ow age tags b h =
               steps [createAnimal_fill a ow age tags, createAnimal_verify a] b ?H"
    unfolding createAnimal_def
    by (simp only: andThen_run assms prod.case sum.case thenDo_def check_run probeTrace_def
        Some option.case steps_consoleLog append_Nil2)
  obtain t where "fst (steps [createAnimal_fill a ow age tags, createAnimal_verify a] b ?H) = ?H @ t"
    using issues_prefix [OF save_createAnimal_rest] by blast
  with Some show ?thesis
    unfolding run by simp
qed

lemma createContact_listing:
  assumes lit: "literalMatcher matches" and src: "literalSource (contactSource cn)"
  shows \<open>createContact cn ct (listingPage matches shown) h =
          (if includesStr shown (contactSource cn)
           then (h @ contactSearchTrace cn
                 @ [ExpectText firstResult (contactPattern cn) (Some 5000),
                    Log (''Contact "'' @ fullName cn @ ''" found.'')], Inr ())
           else (h @ contactCreatedTrace cn ct, Inr ()))\<close>
proof -
  let ?b = "listingPage matches shown"
  have q: "(\<And>p t. a \<noteq> ExpectText firstResult p t) \<Longrightarrow> perform ?b k a = None" for a k
    by (rule listing_ok)
  have v1: "syntaxError ?b (contactSource cn) = None"
    unfolding listingPage_def by (rule stub_engine) (rule src)
  have v2: "syntaxError ?b (lastName cn @ '', '' @ firstName cn) = None"
    unfolding listingPage_def by (rule stub_engine) (rule src [unfolded literalSource_contact])
  have m: "matches (Rx (contactSource cn)) shown = includesStr shown (contactSource cn)"
    using lit src by (simp add: literalMatcher_def)
  have s: "createContact_search cn ?b h = (h @ contactSearchTrace cn, Inr ())"
    by (rule createContact_search_ok [OF q])
  show ?thesis
  proof (cases "includesStr shown (contactSource cn)")
    case True
    with m v1 have "resolves ?b (h @ contactSearchTrace cn) (contactSource cn)"
      by (simp add: resolves_def listing_probe)
    from createContact_found [OF s this, of ct] True show ?thesis
      by simp
  next
    case False
    with m have p: "perform ?b (h @ contactSearchTrace cn)
                      (ExpectText firstResult (contactPattern cn) (Some 5000)) = Some timeoutError"
      by (simp add: listing_probe contactPattern_def)
    from createContact_created_ok [OF q v1 v2 p, of ct] False show ?thesis
      by simp
  qed
qed

lemma listing_reads:
  "readTexts (listingPage matches shown) h l = Inr []"
  "readVisible (listingPage matches shown) h l t = Inr True"
  "readText (listingPage matches shown) h errorToast 2000 = Inl timeoutError"
  "readText (listingPage matches shown) h successToast 2000 = Inr (Some ''Saved'')"
  by (simp_all add: listingPage_def stub_reads stub_readText)

lemma createAnimal_listing:
  assumes lit: "literalMatcher matches" and src: "literalSource (animalSource a)"
  shows \<open>createAnimal a ow age tags (listingPage matches shown) h =
          (if includesStr shown (animalSource a)
           then (h @ animalSearchTrace a
                 @ [ExpectText firstResult (animalPattern a) (Some 5000),
                    Log (''Animal "'' @ a @ ''" found.'')], Inr ())
           else (h @ animalCreatedTrace a ow age tags True, Inr ()))\<close>
proof -
  let ?b = "listingPage matches shown"
  have q: "(\<And>p t. x \<noteq> ExpectText firstResult p t) \<Longrightarrow> perform ?b k x = None" for x k
    by (rule listing_ok)
  have v: "syntaxError ?b (animalSource a) = None"
    unfolding listingPage_def by (rule stub_engine) (rule src)
  have pr: "probeTrace ?b (animalSource a) = [ExpectText firstResult (animalPattern a) (Some 5000)]"
    unfolding listingPage_def animalPattern_def by (rule stub_probeTrace) (rule src)
  have m: "matches (Rx (animalSource a)) shown = includesStr shown (animalSource a)"
    using lit src by (simp add: literalMatcher_def)
  have s: "createAnimal_search a ?b h = (h @ animalSearchTrace a, Inr ())"
    by (rule createAnimal_search_ok [OF q])
  show ?thesis
  proof (cases "includesStr shown (animalSource a)")
    case True
    with m v have "resolves ?b (h @ animalSearchTrace a) (animalSource a)"
      by (simp add: resolves_def listing_probe)
    from createAnimal_found [OF s this, of ow age tags] True show ?thesis
      by simp
  next
    case False
    with m have nf: "\<not> resolves ?b (h @ animalSearchTrace a) (animalSource a)"
      by (simp add: resolves_def listing_probe)
    from createAnimal_created_ok
      [where b = ?b and allItems = "[]" and visible = True and ?e1.0 = timeoutError
         and h = h and a = a and ow = ow and age = age and tags = tags,
       OF q listing_reads nf] False
    show ?thesis
      by (simp add: pr animalCreatedTrace_def)
  qed
qed

lemma not_literal_paren: "\<not> literalSource (animalSource ''Rex('')"
  by (simp add: literalSource_def syntaxCharacters_def animalSource_def)

lemma unresolved_run:
  assumes q: "\<And>h a. (\<And>p t. a \<noteq> ExpectText firstResult p t) \<Longrightarrow>
                perform (stubPage answer (toasts None (Some ''Saved'')) True) h a = None"
  shows "createAnimal ''Rex('' ''Smith, John'' None None
           (stubPage answer (toasts None (Some ''Saved'')) True) h = (h @ unresolvedRun, Inr ())"
proof -
  let ?b = "stubPage answer (toasts None (Some ''Saved'')) True"
  have nf: "\<not> resolves ?b (h @ animalSearchTrace ''Rex('') (animalSource ''Rex('')"
    by (simp add: resolves_def stub_engine(2) [OF not_literal_paren])
  have pr: "probeTrace ?b (animalSource ''Rex('') = []"
    by (simp add: probeTrace_def stub_engine(2) [OF not_literal_paren])
  from createAnimal_created_ok
    [where b = ?b and allItems = "[]" and visible = True and ?e1.0 = timeoutError
       and h = h and a = "''Rex(''" and ow = "''Smith, John''" and age = None and tags = None,
     OF q stub_reads stub_readText(1) [of _ None, simplified] stub_readText(2) [of _ _ "Some ''Saved''", simplified] nf]
  show ?thesis
    by (simp add: pr unresolvedRun_def)
qed

text \<open>
  C4, amended. Once the search has run, \<open>createContact\<close> constructs the regular
  expression \<open>-  lastName, firstName\<close> and \<open>createAnimal\<close> the regular expression of the
  name between double quotes. When the constructor returns, the next command is the
  probe of the first result against that regular expression, with a timeout of 5
  seconds; when it throws, no probe is sent and the next command is the log line of the
  create path. For a name without syntax characters, the check finds the record exactly
  when the pattern occurs somewhere in the text of the first result; it is a search, not
  an exact match. So a first result reading \<open>-  Smithson, Johnny\<close> does not resolve the
  contact John Smith, and a first result reading \<open>-  Smith, Johnny\<close> does.
\<close>

theorem pattern_exactness:
  \<open>(createContact_search cn b h = (hs, Inr ()) \<longrightarrow>
      take (Suc (length hs)) (fst (createContact cn ct b h)) =
        hs @ (case syntaxError b (''-  '' @ lastName cn @ '', '' @ firstName cn) of
                None \<Rightarrow>
                  [ExpectText firstResult (Rx (''-  '' @ lastName cn @ '', '' @ firstName cn))
                     (Some 5000)]
              | Some msg \<Rightarrow>
                  [Log (''Contact "'' @ fullName cn @ ''" not found. Creating...'')])) \<and>
   (createAnimal_search a b h = (hp, Inr ()) \<longrightarrow>
      take (Suc (length hp)) (fst (createAnimal a ow age tags b h)) =
        hp @ (case syntaxError b (''"'' @ a @ ''"'') of
                None \<Rightarrow> [ExpectText firstResult (Rx (''"'' @ a @ ''"'')) (Some 5000)]
              | Some msg \<Rightarrow> [Log (''Animal "'' @ a @ ''" not found. Creating...'')])) \<and>
   (literalMatcher matches \<and> literalSource (contactSource cn) \<longrightarrow>
      createContact cn ct (listingPage matches shown) h =
        (if includesStr shown (contactSource cn)
         then (h @ contactSearchTrace cn
               @ [ExpectText firstResult (contactPattern cn) (Some 5000),
                  Log (''Contact "'' @ fullName cn @ ''" found.'')], Inr ())
         else (h @ contactCreatedTrace cn ct, Inr ()))) \<and>
   (literalMatcher matches \<and> literalSource (animalSource a) \<longrightarrow>
      createAnimal a ow age tags (listingPage matches shown) h =
        (if includesStr shown (animalSource a)
         then (h @ animalSearchTrace a
               @ [ExpectText firstResult (animalPattern a) (Some 5000),
                  Log (''Animal "'' @ a @ ''" found.'')], Inr ())
         else (h @ animalCreatedTrace a ow age tags True, Inr ())))\<close>
proof (intro conjI impI; (elim conjE)?)
  assume "createContact_search cn b h = (hs, Inr ())"
  from createContact_probe [OF this, of ct, unfolded contactSource_def]
  show \<open>take (Suc (length hs)) (fst (createContact cn ct b h)) =
        hs @ (case syntaxError b (''-  '' @ lastName cn @ '', '' @ firstName cn) of
                None \<Rightarrow>
                  [ExpectText firstResult (Rx (''-  '' @ lastName cn @ '', '' @ firstName cn))
                     (Some 5000)]
              | Some msg \<Rightarrow>
                  [Log (''Contact "'' @ fullName cn @ ''" not found. Creating...'')])\<close> .
next
  assume "createAnimal_search a b h = (hp, Inr ())"
  from createAnimal_probe [OF this, of ow age tags, unfolded animalSource_def]
  show \<open>take (Suc (length hp)) (fst (createAnimal a ow age tags b h)) =
        hp @ (case syntaxError b (''"'' @ a @ ''"'') of
                None \<Rightarrow> [ExpectText firstResult (Rx (''"'' @ a @ ''"'')) (Some 5000)]
              | Some msg \<Rightarrow> [Log (''Animal "'' @ a @ ''" not found. Creating...'')])\<close> .
next
  assume "literalMatcher matches" and "literalSource (contactSource cn)"
  then show \<open>createContact cn ct (listingPage matches shown) h =
        (if includesStr shown (contactSource cn)
         then (h @ contactSearchTrace cn
               @ [ExpectText firstResult (contactPattern cn) (Some 5000),
                  Log (''Contact "'' @ fullName cn @ ''" found.'')], Inr ())
         else (h @ contactCreatedTrace cn ct, Inr ()))\<close>
    by (rule createContact_listing)
next
  assume "literalMatcher matches" and "literalSource (animalSource a)"
  then show \<open>createAnimal a ow age tags (listingPage matches shown) h =
        (if includesStr shown (animalSource a)
         then (h @ animalSearchTrace a
               @ [ExpectText firstResult (animalPattern a) (Some 5000),
                  Log (''Animal "'' @ a @ ''" found.'')], Inr ())
         else (h @ animalCreatedTrace a ow age tags True, Inr ()))\<close>
    by (rule createAnimal_listing)
qed

theorem pattern_exactness_witness:
  \<open>createContact_search johnSmith freshPage [] = (contactSearchTrace johnSmith, Inr ()) \<and>
   take (Suc (length (contactSearchTrace johnSmith)))
       (fst (createContact johnSmith (One Vet) freshPage [])) =
     contactSearchTrace johnSmith
     @ [ExpectText firstResult (Rx ''-  Smith, John'') (Some 5000)] \<and>
   createAnimal_search ''Rex'' freshPage [] = (animalSearchTrace ''Rex'', Inr ()) \<and>
   take (Suc (length (animalSearchTrace ''Rex'')))
       (fst (createAnimal ''Rex'' ''Smith, John'' None None freshPage [])) =
     animalSearchTrace ''Rex'' @ [ExpectText firstResult (Rx ''"Rex"'') (Some 5000)] \<and>
   createAnimal_search ''Rex('' freshPage [] = (animalSearchTrace ''Rex('', Inr ()) \<and>
   take (Suc (length (animalSearchTrace ''Rex('')))
       (fst (createAnimal ''Rex('' ''Smith, John'' None None freshPage [])) =
     animalSearchTrace ''Rex('' @ [Log ''Animal "Rex(" not found. Creating...''] \<and>
   literalMatcher substringMatcher \<and>
   literalSource (contactSource johnSmith) \<and>
   createContact johnSmith (One Vet) (listingPage substringMatcher ''-  Smithson, Johnny'') [] =
     (contactCreatedTrace johnSmith (One Vet), Inr ()) \<and>
   createContact johnSmith (One Vet) (listingPage substringMatcher ''-  Smith, John'') [] =
     (contactSearchTrace johnSmith
      @ [ExpectText firstResult (contactPattern johnSmith) (Some 5000),
         Log ''Contact "John Smith" found.''], Inr ()) \<and>
   createContact johnSmith (One Vet) (listingPage substringMatcher ''-  Smith, Johnny'') [] =
     (contactSearchTrace johnSmith
      @ [ExpectText firstResult (contactPattern johnSmith) (Some 5000),
         Log ''Contact "John Smith" found.''], Inr ()) \<and>
   literalSource (animalSource ''Rex'') \<and>
   createAnimal ''Rex'' ''Smith, John'' None None
       (listingPage substringMatcher ''"Rex" (Smith, John)'') [] =
     (animalSearchTrace ''Rex''
      @ [ExpectText firstResult (animalPattern ''Rex'') (Some 5000),
         Log ''Animal "Rex" found.''], Inr ()) \<and>
   createAnimal ''Rex'' ''Smith, John'' None None
       (listingPage substringMatcher ''"Rexy" (Smith, John)'') [] =
     (animalCreatedTrace ''Rex'' ''Smith, John'' None None True, Inr ())\<close>
proof -
  have q: "(\<And>p t. x \<noteq> ExpectText firstResult p t) \<Longrightarrow> perform freshPage k x = None" for x k
    unfolding freshPage_def by (rule stub_quiet)
  have a: "createAnimal_search ''Rex'' freshPage [] = (animalSearchTrace ''Rex'', Inr ())"
    using createAnimal_search_ok [where b = freshPage and h = "[]" and a = "''Rex''"] q by simp
  have p: "createAnimal_search ''Rex('' freshPage [] = (animalSearchTrace ''Rex('', Inr ())"
    using createAnimal_search_ok [where b = freshPage and h = "[]" and a = "''Rex(''"] q by simp
  have vc: "syntaxError freshPage (''-  '' @ lastName johnSmith @ '', '' @ firstName johnSmith) = None"
    using literal_john_smith by (simp add: freshPage_def stub_engine contactSource_def)
  have va: \<open>syntaxError freshPage (''"'' @ ''Rex'' @ ''"'') = None\<close>
    using literal_rex by (simp add: freshPage_def stub_engine animalSource_def)
  have vp: \<open>syntaxError freshPage (''"'' @ ''Rex('' @ ''"'') = Some ''Invalid regular expression''\<close>
    using not_literal_paren by (simp add: freshPage_def stub_engine animalSource_def)
  note rex = pattern_exactness
    [where cn = johnSmith and ct = "One Vet" and b = freshPage and h = "[]"
       and hs = "contactSearchTrace johnSmith" and a = "''Rex''" and ow = "''Smith, John''"
       and age = None and tags = None and hp = "animalSearchTrace ''Rex''"
       and matches = substringMatcher]
  note paren = pattern_exactness
    [where b = freshPage and h = "[]" and a = "''Rex(''" and ow = "''Smith, John''"
       and age = None and tags = None and hp = "animalSearchTrace ''Rex(''"]
  from rex [THEN conjunct1, THEN mp, OF freshPage_search]
  have 1: \<open>take (Suc (length (contactSearchTrace johnSmith)))
       (fst (createContact johnSmith (One Vet) freshPage [])) =
     contactSearchTrace johnSmith
     @ [ExpectText firstResult (Rx ''-  Smith, John'') (Some 5000)]\<close>
    unfolding vc by (simp add: johnSmith_def)
  from rex [THEN conjunct2, THEN conjunct1, THEN mp, OF a]
  have 2: \<open>take (Suc (length (animalSearchTrace ''Rex'')))
       (fst (createAnimal ''Rex'' ''Smith, John'' None None freshPage [])) =
     animalSearchTrace ''Rex'' @ [ExpectText firstResult (Rx ''"Rex"'') (Some 5000)]\<close>
    unfolding va by simp
  from paren [THEN conjunct2, THEN conjunct1, THEN mp, OF p]
  have 3: \<open>take (Suc (length (animalSearchTrace ''Rex('')))
       (fst (createAnimal ''Rex('' ''Smith, John'' None None freshPage [])) =
     animalSearchTrace ''Rex('' @ [Log ''Animal "Rex(" not found. Creating...'']\<close>
    unfolding vp by simp
  note lit = conjI [OF literalMatcher_substring literal_john_smith]
  have 4: "createContact johnSmith (One Vet)
             (listingPage substringMatcher ''-  Smithson, Johnny'') [] =
     (contactCreatedTrace johnSmith (One Vet), Inr ())"
    using pattern_exactness
      [where cn = johnSmith and ct = "One Vet" and h = "[]" and matches = substringMatcher
         and shown = "''-  Smithson, Johnny''",
       THEN conjunct2, THEN conjunct2, THEN conjunct1, THEN mp, OF lit]
    by (simp add: contactSource_def johnSmith_def)
  have 5: \<open>createContact johnSmith (One Vet) (listingPage substringMatcher ''-  Smith, John'') [] =
     (contactSearchTrace johnSmith
      @ [ExpectText firstResult (contactPattern johnSmith) (Some 5000),
         Log ''Contact "John Smith" found.''], Inr ())\<close>
    using pattern_exactness
      [where cn = johnSmith and ct = "One Vet" and h = "[]" and matches = substringMatcher
         and shown = "''-  Smith, John''",
       THEN conjunct2, THEN conjunct2, THEN conjunct1, THEN mp, OF lit]
    by (simp add: contactSource_def johnSmith_def fullName_def)
  have 6: \<open>createContact johnSmith (One Vet) (listingPage substringMatcher ''-  Smith, Johnny'') [] =
     (contactSearchTrace johnSmith
      @ [ExpectText firstResult (contactPattern johnSmith) (Some 5000),
         Log ''Contact "John Smith" found.''], Inr ())\<close>
    using pattern_exactness
      [where cn = johnSmith and ct = "One Vet" and h = "[]" and matches = substringMatcher
         and shown = "''-  Smith, Johnny''",
       THEN conjunct2, THEN conjunct2, THEN conjunct1, THEN mp, OF lit]
    by (simp add: contactSource_def johnSmith_def fullName_def)
  have 7: \<open>createAnimal ''Rex'' ''Smith, John'' None None
       (listingPage substringMatcher ''"Rex" (Smith, John)'') [] =
     (animalSearchTrace ''Rex''
      @ [ExpectText firstResult (animalPattern ''Rex'') (Some 5000),
         Log ''Animal "Rex" found.''], Inr ())\<close>
    using pattern_exactness
      [where a = "''Rex''" and ow = "''Smith, John''" and age = None and tags = None
         and h = "[]" and matches = substringMatcher and shown = \<open>''"Rex" (Smith, John)''\<close>,
       THEN conjunct2, THEN conjunct2, THEN conjunct2, THEN mp,
       OF conjI [OF literalMatcher_substring literal_rex]]
    by (simp add: animalSource_def)
  have 8: \<open>createAnimal ''Rex'' ''Smith, John'' None None
       (listingPage substringMatcher ''"Rexy" (Smith, John)'') [] =
     (animalCreatedTrace ''Rex'' ''Smith, John'' None None True, Inr ())\<close>
    using pattern_exactness
      [where a = "''Rex''" and ow = "''Smith, John''" and age = None and tags = None
         and h = "[]" and matches = substringMatcher and shown = \<open>''"Rexy" (Smith, John)''\<close>,
       THEN conjunct2, THEN conjunct2, THEN conjunct2, THEN mp,
       OF conjI [OF literalMatcher_substring literal_rex]]
    by (simp add: animalSource_def)
  from freshPage_search 1 a 2 p 3 literalMatcher_substring literal_john_smith 4 5 6 literal_rex 7 8
  show ?thesis
    by (intro conjI)
qed

lemma unresolvedRun_probe:
  "ExpectText firstResult (animalPattern ''Rex('') (Some 5000) \<notin> set unresolvedRun"
  by (simp add: unresolvedRun_def animalSearchTrace_def animalFillTrace_def ownerSearchTrace_def
      chooseTrace_def detailsTrace_def ageTrace_def tagsTrace_def firstResult_def
      sidebarSearchInput_def)

theorem pattern_exactness_counterexample:
  \<open>createContact johnSmith (One Customer) (listingPage substringMatcher ''-  Smith, Johnny'') [] =
     (contactSearchTrace johnSmith
      @ [ExpectText firstResult (contactPattern johnSmith) (Some 5000),
         Log ''Contact "John Smith" found.''], Inr ()) \<and>
   createAnimal ''Rex('' ''Smith, John'' None None (listingPage substringMatcher ''"Rex("'') [] =
     (unresolvedRun, Inr ()) \<and>
   ExpectText firstResult (animalPattern ''Rex('') (Some 5000) \<notin> set unresolvedRun\<close>
proof -
  have 1: \<open>createContact johnSmith (One Customer)
             (listingPage substringMatcher ''-  Smith, Johnny'') [] =
     (contactSearchTrace johnSmith
      @ [ExpectText firstResult (contactPattern johnSmith) (Some 5000),
         Log ''Contact "John Smith" found.''], Inr ())\<close>
    using createContact_listing [OF literalMatcher_substring literal_john_smith,
        of "One Customer" "''-  Smith, Johnny''" "[]"]
    by (simp add: contactSource_def johnSmith_def fullName_def)
  have 2: \<open>createAnimal ''Rex('' ''Smith, John'' None None
             (listingPage substringMatcher ''"Rex("'') [] = (unresolvedRun, Inr ())\<close>
    using unresolved_run [of \<open>listing substringMatcher ''"Rex("''\<close> "[]"]
    by (simp add: listingPage_def stub_quiet)
  from 1 2 unresolvedRun_probe show ?thesis
    by (intro conjI)
qed

subsection \<open>Two calls in succession\<close>




















end
